theory Spec2Isabelle
  imports Main "HOL-Library.Word" "HOL-Library.Multiset"
begin

unbundle bit_operations_syntax

section \<open>Data model of the dataset builder (catboost/cuda/data/load_data.cpp)\<close>

text \<open>
  A C++ \<^verbatim>\<open>float\<close> is held as its IEEE-754 binary32 bit pattern, so that the comparisons
  the source makes (\<^verbatim>\<open>w >= 0\<close>, \<^verbatim>\<open>Abs(w) != 0\<close>, \<^verbatim>\<open>elem == vec[0]\<close>) keep their behaviour
  on signed zeros and NaN. Row counts, row indices and feature indices are natural
  numbers: the model covers builders with fewer than \<open>2 ^ 32\<close> documents and features,
  for which the \<^verbatim>\<open>ui32\<close> and \<^verbatim>\<open>ui64\<close> counters of the source do not wrap.
\<close>

type_synonym float = "32 word"
type_synonym ui8 = "8 word"
type_synonym ui32 = "32 word"
type_synonym ui64 = "64 word"
type_synonym TGroupId = "64 word"

definition float_magnitude :: "float \<Rightarrow> 32 word" where
  "float_magnitude w = w AND 0x7FFFFFFF"

definition float_is_nan :: "float \<Rightarrow> bool" where
  "float_is_nan w \<longleftrightarrow> 0x7F800000 < float_magnitude w"

definition float_is_zero :: "float \<Rightarrow> bool" where
  "float_is_zero w \<longleftrightarrow> float_magnitude w = 0"

definition float_sign :: "float \<Rightarrow> bool" where
  "float_sign w \<longleftrightarrow> w AND 0x80000000 \<noteq> 0"

text \<open>\<^verbatim>\<open>w < 0\<close>: false on NaN and on both zeros.\<close>

definition float_lt_zero :: "float \<Rightarrow> bool" where
  "float_lt_zero w \<longleftrightarrow> \<not> float_is_nan w \<and> float_sign w \<and> \<not> float_is_zero w"

text \<open>\<^verbatim>\<open>w >= 0\<close>: false on NaN, true on both zeros.\<close>

definition float_ge_zero :: "float \<Rightarrow> bool" where
  "float_ge_zero w \<longleftrightarrow> \<not> float_is_nan w \<and> (\<not> float_sign w \<or> float_is_zero w)"

text \<open>\<^verbatim>\<open>w != 0\<close>: true on NaN, false on both zeros.\<close>

definition float_ne_zero :: "float \<Rightarrow> bool" where
  "float_ne_zero w \<longleftrightarrow> \<not> float_is_zero w"

text \<open>\<^verbatim>\<open>a == b\<close>: false when either side is NaN; the two zeros are equal.\<close>

definition float_eq :: "float \<Rightarrow> float \<Rightarrow> bool" where
  "float_eq a b \<longleftrightarrow>
     \<not> float_is_nan a \<and> \<not> float_is_nan b \<and> (a = b \<or> (float_is_zero a \<and> float_is_zero b))"

text \<open>The utility template \<^verbatim>\<open>Abs(x)\<close> is \<^verbatim>\<open>x < 0 ? -x : x\<close>.\<close>

definition Abs :: "float \<Rightarrow> float" where
  "Abs w = (if float_lt_zero w then w XOR 0x80000000 else w)"

datatype EFeatureValuesType = Float | Categorical | BinarizedFloat

text \<open>\<^verbatim>\<open>ENanMode\<close> is \<^verbatim>\<open>{Min, Max, Forbidden}\<close> in the source.\<close>

datatype ENanMode = Min_mode | Max_mode | Forbidden

record TPair =
  WinnerId :: "32 word"
  LoserId :: "32 word"
  Weight :: float

text \<open>
  Modelled from the spec: the declaration of \<^verbatim>\<open>TPair\<close> and its \<^verbatim>\<open>operator==\<close> are not
  among the sources; a pair is a (winner-index, loser-index, weight) triple, compared
  field by field, the weight as a float.
\<close>

definition TPair_eq :: "TPair \<Rightarrow> TPair \<Rightarrow> bool" where
  "TPair_eq p q \<longleftrightarrow>
     WinnerId p = WinnerId q \<and> LoserId p = LoserId q \<and> float_eq (Weight p) (Weight q)"

text \<open>
  Every \<^verbatim>\<open>CB_ENSURE\<close> of the file is one error value. \<open>OutOfRange\<close> is the exception of
  \<^verbatim>\<open>TVector::at\<close>, and \<open>NanModeInconsistent\<close> the failed check of
  \<^verbatim>\<open>SetOrCheckNanMode\<close>; their texts are not in this file. \<open>error_message\<close> gives the
  fixed part of each message.
\<close>

datatype error =
    AlreadyFinished
  | PairsWithoutQueryIds
  | InconsistentSize nat nat nat
  | OutOfRange
  | NanModeInconsistent
  | NegativeWeight
  | AllWeightsZero
  | ConstantTargetNoPairs

fun error_message :: "error \<Rightarrow> string" where
  "error_message AlreadyFinished = ''Error: can't finish more than once''"
| "error_message PairsWithoutQueryIds =
     ''Error: for GPU pairwise learning you should provide query id column. Query ids will be used to split data between devices and for dynamic boosting learning scheme.''"
| "error_message (InconsistentSize a b c) = ''Error: size should be consistent ''"
| "error_message OutOfRange = []"
| "error_message NanModeInconsistent = []"
| "error_message NegativeWeight = ''Weights can't be negative''"
| "error_message AllWeightsZero = ''Error: all weights are zero''"
| "error_message ConstantTargetNoPairs =
     ''Error: input target is constant and there are no pairs. No way you could learn on such dataset''"

section \<open>The static helpers\<close>

text \<open>\<^verbatim>\<open>ValidateWeights\<close>: the loop carries \<^verbatim>\<open>hasNonZero\<close> and stops at the first throw.\<close>

fun ValidateWeights_loop :: "float list \<Rightarrow> bool \<Rightarrow> error + bool" where
  "ValidateWeights_loop [] hasNonZero = Inr hasNonZero"
| "ValidateWeights_loop (w # ws) hasNonZero =
     (if \<not> float_ge_zero w then Inl NegativeWeight
      else ValidateWeights_loop ws (hasNonZero \<or> float_ne_zero (Abs w)))"

definition ValidateWeights :: "float list \<Rightarrow> error + unit" where
  "ValidateWeights weights =
     (case ValidateWeights_loop weights False of
        Inl e \<Rightarrow> Inl e
      | Inr hasNonZero \<Rightarrow> if hasNonZero then Inr () else Inl AllWeightsZero)"

text \<open>
  \<^verbatim>\<open>IsConstant\<close>: every element is compared with \<^verbatim>\<open>vec[0]\<close> by the element type's
  \<^verbatim>\<open>operator==\<close>; an empty vector never reads \<^verbatim>\<open>vec[0]\<close> and is constant.
\<close>

fun IsConstant_loop :: "('a \<Rightarrow> 'a \<Rightarrow> bool) \<Rightarrow> 'a \<Rightarrow> 'a list \<Rightarrow> bool" where
  "IsConstant_loop eq v0 [] = True"
| "IsConstant_loop eq v0 (elem # rest) =
     (if \<not> eq elem v0 then False else IsConstant_loop eq v0 rest)"

definition IsConstant :: "('a \<Rightarrow> 'a \<Rightarrow> bool) \<Rightarrow> 'a list \<Rightarrow> bool" where
  "IsConstant eq vec = (case vec of [] \<Rightarrow> True | v0 # _ \<Rightarrow> IsConstant_loop eq v0 vec)"

text \<open>\<^verbatim>\<open>HasQueryIds\<close>: some row's group id differs from the row's own index.\<close>

fun HasQueryIds_from :: "nat \<Rightarrow> TGroupId list \<Rightarrow> bool" where
  "HasQueryIds_from i [] = False"
| "HasQueryIds_from i (q # qs) =
     (if q \<noteq> of_nat i then True else HasQueryIds_from (Suc i) qs)"

definition HasQueryIds :: "TGroupId list \<Rightarrow> bool" where
  "HasQueryIds qids = HasQueryIds_from 0 qids"

section \<open>Ordering engine\<close>

text \<open>
  Modelled from the spec: \<^verbatim>\<open>AreEqualTo\<close> (catboost/libs/helpers) is not among the
  sources. "Any timestamp is non-zero" is the negation of \<^verbatim>\<open>AreEqualTo(Timestamp, 0)\<close>.
\<close>

definition AreEqualTo :: "'a list \<Rightarrow> 'a \<Rightarrow> bool" where
  "AreEqualTo vec v = list_all (\<lambda>x. x = v) vec"

text \<open>
  Modelled from the spec: \<^verbatim>\<open>CreateOrderByKey\<close> (catboost/libs/helpers/permutation.h) is
  not among the sources. The order is the stable sort of the row indices by key
  ascending, the original order kept among equal keys.
\<close>

definition CreateOrderByKey :: "ui64 list \<Rightarrow> nat list" where
  "CreateOrderByKey key = sort_key (\<lambda>i. key ! i) [0..<length key]"

text \<open>
  Modelled from the spec: \<^verbatim>\<open>Shuffle\<close> and \<^verbatim>\<open>QueryConsistentShuffle\<close>
  (catboost/libs/helpers/permutation.h) are not among the sources. The ungrouped shuffle
  is a random permutation of all row indices determined by the seed: an exchange shuffle
  whose draws come from a generator \<open>rng seed\<close>, which is a parameter. The
  group-consistent shuffle permutes the groups (runs of equal group id) in the same way
  and keeps every group's rows together and in their original relative order. Both calls
  of \<^verbatim>\<open>Finish\<close> pass block size 1.
\<close>

definition swap_at :: "'a list \<Rightarrow> nat \<Rightarrow> nat \<Rightarrow> 'a list" where
  "swap_at xs i j = xs[i := xs ! j, j := xs ! i]"

fun shuffle_prefix :: "(nat \<Rightarrow> nat) \<Rightarrow> nat \<Rightarrow> 'a list \<Rightarrow> 'a list" where
  "shuffle_prefix draw 0 xs = xs"
| "shuffle_prefix draw (Suc i) xs = shuffle_prefix draw i (swap_at xs i (draw i mod Suc i))"

definition Shuffle :: "(ui64 \<Rightarrow> nat \<Rightarrow> nat) \<Rightarrow> ui64 \<Rightarrow> nat \<Rightarrow> nat list \<Rightarrow> nat list" where
  "Shuffle rng seed sampleCount order = shuffle_prefix (rng seed) sampleCount order"

fun GroupSamples :: "TGroupId list \<Rightarrow> nat list \<Rightarrow> nat list list" where
  "GroupSamples qids [] = []"
| "GroupSamples qids (i # rest) =
     (case GroupSamples qids rest of
        [] \<Rightarrow> [[i]]
      | g # gs \<Rightarrow> if qids ! i = qids ! hd g then (i # g) # gs else [i] # g # gs)"

definition QueryConsistentShuffle ::
  "(ui64 \<Rightarrow> nat \<Rightarrow> nat) \<Rightarrow> ui64 \<Rightarrow> TGroupId list \<Rightarrow> nat list" where
  "QueryConsistentShuffle rng seed qids =
     (let groups = GroupSamples qids [0..<length qids]
      in concat (shuffle_prefix (rng seed) (length groups) groups))"

text \<open>
  Modelled from the spec: \<^verbatim>\<open>TDataProvider::ApplyOrderToMetaColumns\<close> is not among the
  sources. The order is applied uniformly to every per-document array; an array that
  holds nothing (the cleared group ids) stays empty.
\<close>

definition ApplyPermutation :: "nat list \<Rightarrow> 'a list \<Rightarrow> 'a list" where
  "ApplyPermutation order xs = (if xs = [] then [] else map (\<lambda>i. xs ! i) order)"

section \<open>Collaborators and shared stores\<close>

text \<open>
  Compiled columns: \<^verbatim>\<open>TCatFeatureValuesHolder(featureId, size, compressedData,
  uniqueValues, featureName)\<close> and \<^verbatim>\<open>TBinarizedFloatValuesHolder(featureId, size,
  nanMode, borders, compressedLine, featureName)\<close>.
\<close>

datatype TFeatureColumn =
    TCatFeatureValuesHolder nat nat "ui64 list" nat string
  | TBinarizedFloatValuesHolder nat nat ENanMode "float list" "ui64 list" string

fun GetId :: "TFeatureColumn \<Rightarrow> nat" where
  "GetId (TCatFeatureValuesHolder featureId _ _ _ _) = featureId"
| "GetId (TBinarizedFloatValuesHolder featureId _ _ _ _ _) = featureId"

text \<open>
  The collaborators whose code is outside the sources and whose results no property
  below depends on are parameters of the model: the random generator, the derivation of
  per-group pairs, the feature names, the choice of a NaN mode, the border builder, the
  binarizer, the bin count, the bit width and the bit packer, and the target borders.
\<close>

record collaborators =
  Rng :: "ui64 \<Rightarrow> nat \<Rightarrow> nat"
  FillQueryPairs :: "TGroupId list \<Rightarrow> TPair list \<Rightarrow> (TGroupId \<times> TPair list) list"
  GetFeatureName :: "nat \<Rightarrow> string"
  ComputeNanMode :: "float list \<Rightarrow> ENanMode"
  BuildBorders :: "float list \<Rightarrow> nat \<Rightarrow> ENanMode \<Rightarrow> float list"
  BinarizeLine :: "float list \<Rightarrow> ENanMode \<Rightarrow> float list \<Rightarrow> ui8 list"
  GetBinCount :: "float list \<Rightarrow> ENanMode \<Rightarrow> nat"
  IntLog2 :: "nat \<Rightarrow> nat"
  CompressVector :: "nat list \<Rightarrow> nat \<Rightarrow> ui64 list"
  BuildTargetBorders :: "float list \<Rightarrow> float list"

text \<open>
  Modelled from the spec: the feature manager (\<^verbatim>\<open>TBinarizedFeaturesManager\<close>) is not
  among the sources. It is the shared metadata store: a border cache and a NaN-mode cache
  keyed by feature, and the target borders.
\<close>

record TBinarizedFeaturesManager =
  FloatBorders :: "nat \<rightharpoonup> float list"
  FloatNanModes :: "nat \<rightharpoonup> ENanMode"
  TargetBorders :: "float list"

definition HasFloatFeatureBorders :: "TBinarizedFeaturesManager \<Rightarrow> nat \<Rightarrow> bool" where
  "HasFloatFeatureBorders fm featureId \<longleftrightarrow> FloatBorders fm featureId \<noteq> None"

definition GetFloatFeatureBorders :: "TBinarizedFeaturesManager \<Rightarrow> nat \<Rightarrow> float list" where
  "GetFloatFeatureBorders fm featureId =
     (case FloatBorders fm featureId of None \<Rightarrow> [] | Some borders \<Rightarrow> borders)"

definition SetFloatFeatureBordersForDataProviderId ::
  "TBinarizedFeaturesManager \<Rightarrow> nat \<Rightarrow> float list \<Rightarrow> TBinarizedFeaturesManager" where
  "SetFloatFeatureBordersForDataProviderId fm featureId borders =
     fm\<lparr>FloatBorders := (FloatBorders fm)(featureId \<mapsto> borders)\<rparr>"

definition GetOrComputeNanMode ::
  "collaborators \<Rightarrow> TBinarizedFeaturesManager \<Rightarrow> nat \<Rightarrow> float list
     \<Rightarrow> ENanMode \<times> TBinarizedFeaturesManager" where
  "GetOrComputeNanMode c fm featureId values =
     (case FloatNanModes fm featureId of
        Some nanMode \<Rightarrow> (nanMode, fm)
      | None \<Rightarrow>
          (let nanMode = ComputeNanMode c values
           in (nanMode, fm\<lparr>FloatNanModes := (FloatNanModes fm)(featureId \<mapsto> nanMode)\<rparr>)))"

definition SetOrCheckNanMode ::
  "TBinarizedFeaturesManager \<Rightarrow> nat \<Rightarrow> ENanMode \<Rightarrow> error + TBinarizedFeaturesManager" where
  "SetOrCheckNanMode fm featureId nanMode =
     (case FloatNanModes fm featureId of
        None \<Rightarrow> Inr (fm\<lparr>FloatNanModes := (FloatNanModes fm)(featureId \<mapsto> nanMode)\<rparr>)
      | Some known \<Rightarrow> if known = nanMode then Inr fm else Inl NanModeInconsistent)"

text \<open>
  Modelled from the spec: the perfect-hash indexer (\<^verbatim>\<open>CatFeaturesPerfectHashHelper\<close>) is
  not among the sources. Per categorical feature it keeps the raw values seen so far with
  their codes; a new raw value receives the current distinct count as its code, and a
  code once assigned never changes.
\<close>

type_synonym TPerfectHash = "(ui32 \<times> nat) list"

fun UpdatePerfectHash :: "ui32 list \<Rightarrow> TPerfectHash \<Rightarrow> nat list \<times> TPerfectHash" where
  "UpdatePerfectHash [] table = ([], table)"
| "UpdatePerfectHash (v # vs) table =
     (case map_of table v of
        Some code \<Rightarrow>
          (case UpdatePerfectHash vs table of (codes, table') \<Rightarrow> (code # codes, table'))
      | None \<Rightarrow>
          (case UpdatePerfectHash vs (table @ [(v, length table)]) of
             (codes, table') \<Rightarrow> (length table # codes, table')))"

definition GetUniqueValues :: "(nat \<Rightarrow> TPerfectHash) \<Rightarrow> nat \<Rightarrow> nat" where
  "GetUniqueValues helper featureId = length (helper featureId)"

definition UpdatePerfectHashAndBinarize ::
  "(nat \<Rightarrow> TPerfectHash) \<Rightarrow> nat \<Rightarrow> float list \<Rightarrow> nat list \<times> (nat \<Rightarrow> TPerfectHash)" where
  "UpdatePerfectHashAndBinarize helper featureId line =
     (case UpdatePerfectHash line (helper featureId) of
        (codes, table') \<Rightarrow> (codes, helper(featureId := table')))"

section \<open>The builder\<close>

text \<open>
  \<^verbatim>\<open>TDataProviderBuilder\<close> with the fields of the \<^verbatim>\<open>DataProvider\<close> it owns (from
  \<open>Targets\<close> on) held in the same record. \<open>FeaturesManager\<close> and
  \<open>CatFeaturesPerfectHashHelper\<close> are the current contents of the two shared objects
  the builder refers to. \<open>TargetHelper\<close> is the optional target-conversion collaborator:
  \<^verbatim>\<open>MakeTargetAndWeights(isLearn, &targets, &weights)\<close> rewrites both arrays.
\<close>

record TDataProviderBuilder =
  IsDone :: bool
  IsTest :: bool
  ShuffleFlag :: bool
  Seed :: ui64
  Cursor :: nat
  TargetHelper :: "(bool \<Rightarrow> float list \<Rightarrow> float list \<Rightarrow> float list \<times> float list) option"
  Pairs :: "TPair list"
  IgnoreFeatures :: "nat set"
  FeatureBlobs :: "ui8 list list"
  FeatureTypes :: "EFeatureValuesType list"
  Borders :: "float list list"
  NanModes :: "ENanMode list"
  Labels :: "string list"
  FeaturesManager :: TBinarizedFeaturesManager
  CatFeaturesPerfectHashHelper :: "nat \<Rightarrow> TPerfectHash"
  Targets :: "float list"
  Weights :: "float list"
  QueryIds :: "TGroupId list"
  SubgroupIds :: "ui32 list"
  Timestamp :: "ui64 list"
  Baseline :: "float list list"
  Order :: "nat list"
  QueryPairs :: "(TGroupId \<times> TPair list) list"
  ShuffleSeed :: ui64
  Features :: "TFeatureColumn list"
  FeatureNames :: "string list"

subsection \<open>StartNextBlock\<close>

text \<open>\<^verbatim>\<open>vec.resize(n, v)\<close>: truncate, or pad with \<open>v\<close>.\<close>

definition resize :: "nat \<Rightarrow> 'a \<Rightarrow> 'a list \<Rightarrow> 'a list" where
  "resize n v xs = take n xs @ replicate (n - length xs) v"

text \<open>
  Modelled from the spec: \<^verbatim>\<open>GetBytesPerFeature\<close> is declared in the header, which is not
  among the sources; the per-feature byte width is one byte for a pre-binarized feature
  and the size of a float otherwise.
\<close>

definition GetBytesPerFeature :: "TDataProviderBuilder \<Rightarrow> nat \<Rightarrow> nat" where
  "GetBytesPerFeature b featureId =
     (if FeatureTypes b ! featureId = BinarizedFloat then 1 else 4)"

definition StartNextBlock :: "TDataProviderBuilder \<Rightarrow> nat \<Rightarrow> TDataProviderBuilder" where
  "StartNextBlock b blockSize =
     (let cursor = length (Targets b);
          newDataSize = cursor + blockSize;
          qids = resize newDataSize 0 (QueryIds b);
          sgids = resize newDataSize 0 (SubgroupIds b)
      in b\<lparr>Cursor := cursor,
            Targets := resize newDataSize 0 (Targets b),
            Weights := resize newDataSize 0x3F800000 (Weights b),
            QueryIds := take cursor qids @ map of_nat [cursor..<length qids],
            SubgroupIds := take cursor sgids @ map of_nat [cursor..<length sgids],
            Timestamp := resize newDataSize 0 (Timestamp b),
            Baseline := map (resize newDataSize 0) (Baseline b),
            FeatureBlobs :=
              map (\<lambda>featureId.
                     if featureId \<notin> IgnoreFeatures b
                     then resize (newDataSize * GetBytesPerFeature b featureId) 0
                            (FeatureBlobs b ! featureId)
                     else FeatureBlobs b ! featureId)
                  [0..<length (FeatureBlobs b)],
            Labels := resize newDataSize [] (Labels b)\<rparr>)"

subsection \<open>MakeOrderedLine\<close>

text \<open>
  The blob of a float or categorical feature holds four bytes per row, read as a float
  (little-endian, as on the platforms the library builds for); the blob of a
  pre-binarized feature holds one byte per row. The source reads \<^verbatim>\<open>rawSourcePtr[order[i]]\<close>
  unchecked: after the size check every entry of a document order is in range, since
  the order is a permutation of the row indices.
\<close>

definition float_of_bytes :: "ui8 list \<Rightarrow> float" where
  "float_of_bytes bs = foldr (\<lambda>byte acc. ucast byte OR push_bit 8 acc) bs 0"

definition float_at :: "ui8 list \<Rightarrow> nat \<Rightarrow> float" where
  "float_at source i = float_of_bytes (take 4 (drop (4 * i) source))"

definition MakeOrderedLine_float :: "ui8 list \<Rightarrow> nat list \<Rightarrow> error + float list" where
  "MakeOrderedLine_float source order =
     (if length source \<noteq> 4 * length order
      then Inl (InconsistentSize (length source) (length order) 4)
      else Inr (map (\<lambda>i. float_at source i) order))"

definition MakeOrderedLine_ui8 :: "ui8 list \<Rightarrow> nat list \<Rightarrow> error + ui8 list" where
  "MakeOrderedLine_ui8 source order =
     (if length source \<noteq> 1 * length order
      then Inl (InconsistentSize (length source) (length order) 1)
      else Inr (map (\<lambda>i. source ! i) order))"

subsection \<open>Finish: the document order (lines 108 to 149)\<close>

text \<open>
  \<open>ComputeOrder\<close> is lines 111 to 118, \<open>ClearQueryIds\<close> lines 120 to 123,
  \<open>FillPairs\<close> lines 131 to 135, \<open>ShuffleOrder\<close> lines 137 to 145 (both shuffles
  write the order through their last argument) and \<open>OrderDocuments\<close> the whole of
  lines 108 to 149, in the order of the source.
\<close>

definition ComputeOrder :: "TDataProviderBuilder \<Rightarrow> TDataProviderBuilder" where
  "ComputeOrder b =
     (let b1 = b\<lparr>Order := [0..<length (Targets b)]\<rparr>
      in if \<not> AreEqualTo (Timestamp b1) 0
         then b1\<lparr>ShuffleFlag := False, Order := CreateOrderByKey (Timestamp b1)\<rparr>
         else b1)"

definition ClearQueryIds :: "bool \<Rightarrow> TDataProviderBuilder \<Rightarrow> TDataProviderBuilder" where
  "ClearQueryIds hasQueryIds b = (if \<not> hasQueryIds then b\<lparr>QueryIds := []\<rparr> else b)"

text \<open>
  Lines 125 to 128. The copy of the helper into \<^verbatim>\<open>DataProvider.ClassificationTargetHelper\<close>
  is not a field of the model.
\<close>

definition MakeTargetAndWeights :: "TDataProviderBuilder \<Rightarrow> TDataProviderBuilder" where
  "MakeTargetAndWeights b =
     (case TargetHelper b of
        None \<Rightarrow> b
      | Some helper \<Rightarrow>
          (case helper (\<not> IsTest b) (Targets b) (Weights b) of
             (targets, weights) \<Rightarrow> b\<lparr>Targets := targets, Weights := weights\<rparr>))"

definition FillPairs ::
  "collaborators \<Rightarrow> bool \<Rightarrow> TDataProviderBuilder \<Rightarrow> error + TDataProviderBuilder" where
  "FillPairs c hasQueryIds b =
     (if Pairs b \<noteq> []
      then (if \<not> hasQueryIds then Inl PairsWithoutQueryIds
            else Inr (b\<lparr>QueryPairs := FillQueryPairs c (QueryIds b) (Pairs b)\<rparr>))
      else Inr b)"

definition ShuffleOrder ::
  "collaborators \<Rightarrow> bool \<Rightarrow> TDataProviderBuilder \<Rightarrow> TDataProviderBuilder" where
  "ShuffleOrder c hasQueryIds b =
     (if ShuffleFlag b
      then (let b1 = (if hasQueryIds
                      then b\<lparr>Order := QueryConsistentShuffle (Rng c) (Seed b) (QueryIds b)\<rparr>
                      else b\<lparr>Order := Shuffle (Rng c) (Seed b) (length (Targets b)) (Order b)\<rparr>)
            in b1\<lparr>ShuffleSeed := Seed b\<rparr>)
      else b)"

definition ApplyOrderToMetaColumns :: "TDataProviderBuilder \<Rightarrow> TDataProviderBuilder" where
  "ApplyOrderToMetaColumns b =
     b\<lparr>Targets := ApplyPermutation (Order b) (Targets b),
       Weights := ApplyPermutation (Order b) (Weights b),
       QueryIds := ApplyPermutation (Order b) (QueryIds b),
       SubgroupIds := ApplyPermutation (Order b) (SubgroupIds b),
       Timestamp := ApplyPermutation (Order b) (Timestamp b),
       Baseline := map (ApplyPermutation (Order b)) (Baseline b)\<rparr>"

definition OrderDocuments ::
  "collaborators \<Rightarrow> TDataProviderBuilder \<Rightarrow> error + TDataProviderBuilder" where
  "OrderDocuments c b =
     (if IsDone b then Inl AlreadyFinished
      else
        (let b1 = ComputeOrder b;
             hasQueryIds = HasQueryIds (QueryIds b1);
             b2 = ClearQueryIds hasQueryIds b1;
             b3 = MakeTargetAndWeights b2
         in case FillPairs c hasQueryIds b3 of
              Inl e \<Rightarrow> Inl e
            | Inr b4 \<Rightarrow>
                (let b5 = ShuffleOrder c hasQueryIds b4
                 in Inr (if ShuffleFlag b5 \<or> Timestamp b5 \<noteq> []
                         then ApplyOrderToMetaColumns b5 else b5))))"

subsection \<open>Finish: the per-feature task (lines 165 to 277)\<close>

text \<open>The block under \<^verbatim>\<open>//Free memory\<close>: the blob is swapped with an empty vector.\<close>

definition FreeBlob :: "TDataProviderBuilder \<Rightarrow> nat \<Rightarrow> TDataProviderBuilder" where
  "FreeBlob b featureId = b\<lparr>FeatureBlobs := (FeatureBlobs b)[featureId := []]\<rparr>"

text \<open>
  Each branch returns the builder as the task leaves it, the slot
  \<^verbatim>\<open>featureColumns[featureId]\<close> (\<open>None\<close> for \<^verbatim>\<open>nullptr\<close>) and, for reference, the bins
  the task computed for the feature (the local \<^verbatim>\<open>data\<close> or \<^verbatim>\<open>binarizedData\<close>),
  \<open>None\<close> when it computed none.
\<close>

definition CompileCategorical ::
  "collaborators \<Rightarrow> TDataProviderBuilder \<Rightarrow> nat \<Rightarrow> string
     \<Rightarrow> error + TDataProviderBuilder \<times> TFeatureColumn option \<times> nat list option" where
  "CompileCategorical c b featureId featureName =
     (case MakeOrderedLine_float (FeatureBlobs b ! featureId) (Order b) of
        Inl e \<Rightarrow> Inl e
      | Inr line \<Rightarrow>
          (let shouldSkip =
                 (IsTest b \<and> GetUniqueValues (CatFeaturesPerfectHashHelper b) featureId = 0)
           in if \<not> shouldSkip
              then
                (case UpdatePerfectHashAndBinarize (CatFeaturesPerfectHashHelper b) featureId line of
                   (data, helper') \<Rightarrow>
                     (let uniqueValues = GetUniqueValues helper' featureId;
                          column =
                            (if uniqueValues > 1
                             then Some (TCatFeatureValuesHolder featureId (length line)
                                          (CompressVector c data (IntLog2 c uniqueValues))
                                          uniqueValues featureName)
                             else None)
                      in Inr (FreeBlob (b\<lparr>CatFeaturesPerfectHashHelper := helper'\<rparr>) featureId,
                              column, Some data)))
              else Inr (FreeBlob b featureId, None, None)))"

definition CompileBinarizedFloat ::
  "collaborators \<Rightarrow> TDataProviderBuilder \<Rightarrow> nat \<Rightarrow> string
     \<Rightarrow> error + TDataProviderBuilder \<times> TFeatureColumn option \<times> nat list option" where
  "CompileBinarizedFloat c b featureId featureName =
     (if \<not> (featureId < length (Borders b) \<and> featureId < length (NanModes b))
      then Inl OutOfRange
      else
        (let borders = Borders b ! featureId;
             nanMode = NanModes b ! featureId
         in if length borders = 0 then Inr (b, None, None)
            else
              (case MakeOrderedLine_ui8 (FeatureBlobs b ! featureId) (Order b) of
                 Inl e \<Rightarrow> Inl e
               | Inr binarizedData \<Rightarrow>
                   (let binCount = GetBinCount c borders nanMode;
                        compressedLine =
                          CompressVector c (map unat binarizedData) (IntLog2 c binCount);
                        column =
                          TBinarizedFloatValuesHolder featureId (length (Order b)) nanMode
                            borders compressedLine featureName
                    in case SetOrCheckNanMode (FeaturesManager b) featureId nanMode of
                         Inl e \<Rightarrow> Inl e
                       | Inr fm' \<Rightarrow>
                           Inr (FreeBlob (b\<lparr>FeaturesManager := fm'\<rparr>) featureId,
                                Some column, Some (map unat binarizedData))))))"

definition CompileFloat ::
  "collaborators \<Rightarrow> TDataProviderBuilder \<Rightarrow> nat \<Rightarrow> string
     \<Rightarrow> error + TDataProviderBuilder \<times> TFeatureColumn option \<times> nat list option" where
  "CompileFloat c b featureId featureName =
     (let line = map (\<lambda>i. float_at (FeatureBlobs b ! featureId) i) (Order b)
      in case GetOrComputeNanMode c (FeaturesManager b) featureId line of
           (nanMode, fm') \<Rightarrow>
             (let b1 = b\<lparr>NanModes := (NanModes b)[featureId := nanMode],
                          FeaturesManager := fm'\<rparr>;
                  known = (if HasFloatFeatureBorders fm' featureId
                           then GetFloatFeatureBorders fm' featureId
                           else Borders b ! featureId);
                  borders = (if known = [] \<and> \<not> IsTest b
                             then BuildBorders c line featureId nanMode
                             else known);
                  b2 = b1\<lparr>Borders := (Borders b)[featureId := borders]\<rparr>
              in if length borders = 0 then Inr (b2, None, None)
                 else
                   (let binarizedData = BinarizeLine c line nanMode borders;
                        binCount = GetBinCount c borders nanMode;
                        compressedLine =
                          CompressVector c (map unat binarizedData) (IntLog2 c binCount);
                        column =
                          TBinarizedFloatValuesHolder featureId (length line) nanMode
                            borders compressedLine featureName
                    in Inr (FreeBlob b2 featureId, Some column,
                            Some (map unat binarizedData)))))"

definition FeatureTask ::
  "collaborators \<Rightarrow> TDataProviderBuilder \<Rightarrow> nat
     \<Rightarrow> error + TDataProviderBuilder \<times> string \<times> TFeatureColumn option \<times> nat list option" where
  "FeatureTask c b featureId =
     (let featureName = GetFeatureName c featureId
      in if length (FeatureBlobs b ! featureId) = 0 then Inr (b, featureName, None, None)
         else
           (case (case FeatureTypes b ! featureId of
                    Categorical \<Rightarrow> CompileCategorical c b featureId featureName
                  | BinarizedFloat \<Rightarrow> CompileBinarizedFloat c b featureId featureName
                  | Float \<Rightarrow> CompileFloat c b featureId featureName) of
              Inl e \<Rightarrow> Inl e
            | Inr (b', column, bins) \<Rightarrow> Inr (b', featureName, column, bins)))"

text \<open>
  \<^verbatim>\<open>NPar::ParallelFor\<close> over the feature indices. The tasks write disjoint slots of
  \<^verbatim>\<open>featureNames\<close>, \<^verbatim>\<open>featureColumns\<close>, the blobs, \<^verbatim>\<open>Borders\<close> and \<^verbatim>\<open>NanModes\<close>, and
  per-feature entries of the two shared objects, so they are run here one after the
  other in index order; an exception of any task is the exception of the loop.
\<close>

fun ParallelFor ::
  "collaborators \<Rightarrow> TDataProviderBuilder \<Rightarrow> nat list
     \<Rightarrow> error + TDataProviderBuilder \<times> string list \<times> TFeatureColumn option list" where
  "ParallelFor c b [] = Inr (b, [], [])"
| "ParallelFor c b (featureId # rest) =
     (case FeatureTask c b featureId of
        Inl e \<Rightarrow> Inl e
      | Inr (b', featureName, column, bins) \<Rightarrow>
          (case ParallelFor c b' rest of
             Inl e \<Rightarrow> Inl e
           | Inr (b'', featureNames, featureColumns) \<Rightarrow>
               Inr (b'', featureName # featureNames, column # featureColumns)))"

subsection \<open>Finish: reconciliation and validation (lines 279 to 318)\<close>

text \<open>
  The sequential loop over \<^verbatim>\<open>featureColumns\<close>, from slot \<open>featureId\<close> on;
  \<open>ReconcileFeature\<close> is its body.
  \<^verbatim>\<open>HasFloatFeatureBordersForDataProviderFeature\<close> is the border cache's lookup by the
  feature's index in the dataset. The entry of \<^verbatim>\<open>Borders\<close> that is moved into the store
  is not read again.
\<close>

definition ReconcileFeature ::
  "TDataProviderBuilder \<Rightarrow> nat \<Rightarrow> TFeatureColumn option \<Rightarrow> TDataProviderBuilder" where
  "ReconcileFeature b featureId column =
     (let b1 =
            (if FeatureTypes b ! featureId = Categorical then b
             else if column \<noteq> None
             then (if \<not> HasFloatFeatureBorders (FeaturesManager b) featureId
                   then b\<lparr>FeaturesManager :=
                            SetFloatFeatureBordersForDataProviderId (FeaturesManager b)
                              featureId (Borders b ! featureId)\<rparr>
                   else b)
             else b)
      in case column of
           None \<Rightarrow> b1
         | Some col \<Rightarrow> b1\<lparr>Features := Features b1 @ [col]\<rparr>)"

fun Reconcile ::
  "TDataProviderBuilder \<Rightarrow> nat \<Rightarrow> TFeatureColumn option list \<Rightarrow> TDataProviderBuilder" where
  "Reconcile b featureId [] = b"
| "Reconcile b featureId (column # rest) =
     Reconcile (ReconcileFeature b featureId column) (Suc featureId) rest"

definition SetTargetBorders ::
  "collaborators \<Rightarrow> TDataProviderBuilder \<Rightarrow> TDataProviderBuilder" where
  "SetTargetBorders c b =
     b\<lparr>FeaturesManager := (FeaturesManager b)\<lparr>TargetBorders := BuildTargetBorders c (Targets b)\<rparr>\<rparr>"

text \<open>
  Lines 151 to 303. \<^verbatim>\<open>RegisterFeaturesInFeatureManager\<close> (declared in the header) makes
  the features known to the manager and \<^verbatim>\<open>BuildIndicesRemap\<close> indexes the appended
  columns; neither touches a field of this model.
\<close>

definition CompileFeatures ::
  "collaborators \<Rightarrow> TDataProviderBuilder \<Rightarrow> error + TDataProviderBuilder" where
  "CompileFeatures c b =
     (case ParallelFor c b [0..<length (FeatureBlobs b)] of
        Inl e \<Rightarrow> Inl e
      | Inr (b', featureNames, featureColumns) \<Rightarrow>
          (let b1 = Reconcile b' 0 featureColumns;
               b2 = (if \<not> IsTest b1 then SetTargetBorders c b1 else b1)
           in Inr (b2\<lparr>FeatureNames := featureNames\<rparr>)))"

text \<open>Lines 304 to 318.\<close>

definition Validate :: "TDataProviderBuilder \<Rightarrow> error + TDataProviderBuilder" where
  "Validate b =
     (case ValidateWeights (Weights b) of
        Inl e \<Rightarrow> Inl e
      | Inr _ \<Rightarrow>
          (let isConstTarget = IsConstant float_eq (Targets b)
           in if isConstTarget \<and> IsConstant TPair_eq (Pairs b)
              then Inl ConstantTargetNoPairs
              else Inr (b\<lparr>IsDone := True\<rparr>)))"

definition Finish :: "collaborators \<Rightarrow> TDataProviderBuilder \<Rightarrow> error + TDataProviderBuilder" where
  "Finish c b =
     (case OrderDocuments c b of
        Inl e \<Rightarrow> Inl e
      | Inr b1 \<Rightarrow>
          (case CompileFeatures c b1 of
             Inl e \<Rightarrow> Inl e
           | Inr b2 \<Rightarrow> Validate b2))"

section \<open>Sample inputs\<close>

text \<open>
  One instance of the collaborators and one builder, on which the model is evaluated
  below. The instance is only an example: the border builder returns every distinct
  value but the last as a border (so none for a single-valued column), the binarizer
  counts the borders below a value, the packer stores one index per word.
\<close>

definition sample_collaborators :: collaborators where
  "sample_collaborators =
     \<lparr>Rng = (\<lambda>seed i. unat seed + i),
      FillQueryPairs = (\<lambda>qids pairs. map (\<lambda>p. (qids ! unat (WinnerId p), [p])) pairs),
      GetFeatureName = (\<lambda>featureId. replicate (Suc featureId) CHR ''f''),
      ComputeNanMode = (\<lambda>values. Forbidden),
      BuildBorders = (\<lambda>values featureId nanMode. butlast (sort (remdups values))),
      BinarizeLine = (\<lambda>values nanMode borders.
                        map (\<lambda>v. of_nat (length (filter (\<lambda>border. border < v) borders))) values),
      GetBinCount = (\<lambda>borders nanMode.
                       length borders + 1 + (if nanMode = Forbidden then 0 else 1)),
      IntLog2 = (\<lambda>n. n),
      CompressVector = (\<lambda>data bitsPerKey. map of_nat data),
      BuildTargetBorders = (\<lambda>targets. [])\<rparr>"

text \<open>
  Three rows in learn mode, as \<^verbatim>\<open>Start\<close> and \<^verbatim>\<open>StartNextBlock(3)\<close> leave them after the
  writes: targets 1.0, 2.0, 3.0; default weights and group ids; float feature 0 with the
  raw values 1.0, 1.0, 1.0 and float feature 1 with 1.0, 2.0, 3.0.
\<close>

definition sample_builder :: TDataProviderBuilder where
  "sample_builder =
     \<lparr>IsDone = False, IsTest = False, ShuffleFlag = False, Seed = 0, Cursor = 0,
      TargetHelper = None, Pairs = [], IgnoreFeatures = {},
      FeatureBlobs = [[0, 0, 0x80, 0x3F, 0, 0, 0x80, 0x3F, 0, 0, 0x80, 0x3F],
                      [0, 0, 0x80, 0x3F, 0, 0, 0, 0x40, 0, 0, 0x40, 0x40]],
      FeatureTypes = [Float, Float],
      Borders = [[], []],
      NanModes = [Min_mode, Min_mode],
      Labels = [[], [], []],
      FeaturesManager = \<lparr>FloatBorders = Map.empty, FloatNanModes = Map.empty,
                          TargetBorders = []\<rparr>,
      CatFeaturesPerfectHashHelper = (\<lambda>featureId. []),
      Targets = [0x3F800000, 0x40000000, 0x40400000],
      Weights = [0x3F800000, 0x3F800000, 0x3F800000],
      QueryIds = [0, 1, 2],
      SubgroupIds = [0, 1, 2],
      Timestamp = [0, 0, 0],
      Baseline = [],
      Order = [],
      QueryPairs = [],
      ShuffleSeed = 0,
      Features = [],
      FeatureNames = []\<rparr>"

section \<open>Auxiliary notions for the proofs\<close>

text \<open>The fields that the compile and validation phases leave alone.\<close>

definition frame :: "TDataProviderBuilder \<Rightarrow> TDataProviderBuilder \<Rightarrow> bool" where
  "frame b b' \<longleftrightarrow>
     Order b' = Order b \<and> Targets b' = Targets b \<and> Weights b' = Weights b \<and>
     QueryIds b' = QueryIds b \<and> QueryPairs b' = QueryPairs b \<and> Pairs b' = Pairs b \<and>
     IsTest b' = IsTest b \<and> FeatureTypes b' = FeatureTypes b \<and>
     ShuffleFlag b' = ShuffleFlag b \<and> Seed b' = Seed b \<and> Timestamp b' = Timestamp b \<and>
     length (FeatureBlobs b') = length (FeatureBlobs b)"

text \<open>
  What \<^verbatim>\<open>StartNextBlock\<close> maintains: every per-document array has one entry per
  document. The target conversion, when attached, is expected to keep that count.
\<close>

definition rows_consistent :: "TDataProviderBuilder \<Rightarrow> bool" where
  "rows_consistent b \<longleftrightarrow>
     length (Weights b) = length (Targets b) \<and>
     length (QueryIds b) = length (Targets b) \<and>
     length (Timestamp b) = length (Targets b) \<and>
     length (Targets (MakeTargetAndWeights b)) = length (Targets b) \<and>
     length (Weights (MakeTargetAndWeights b)) = length (Targets b)"

text \<open>The errors that the compile phase can raise.\<close>

definition compile_error :: "error \<Rightarrow> bool" where
  "compile_error e \<longleftrightarrow>
     (\<exists>x y z. e = InconsistentSize x y z) \<or> e = OutOfRange \<or> e = NanModeInconsistent"

text \<open>The column slot that the task of a feature fills (\<open>None\<close> when the task throws).\<close>

definition TaskColumn :: "collaborators \<Rightarrow> TDataProviderBuilder \<Rightarrow> nat \<Rightarrow> TFeatureColumn option" where
  "TaskColumn c b featureId =
     (case FeatureTask c b featureId of
        Inl e \<Rightarrow> None
      | Inr (b', featureName, column, bins) \<Rightarrow> column)"

text \<open>Everything that the task of a feature reads.\<close>

definition feature_view ::
  "TDataProviderBuilder \<Rightarrow> nat \<Rightarrow>
     ui8 list \<times> EFeatureValuesType \<times> float list \<times> ENanMode \<times> bool \<times> bool \<times> nat list \<times> bool \<times>
     TPerfectHash \<times> ENanMode option \<times> float list option" where
  "feature_view b featureId =
     (FeatureBlobs b ! featureId, FeatureTypes b ! featureId, Borders b ! featureId,
      NanModes b ! featureId, featureId < length (Borders b), featureId < length (NanModes b),
      Order b, IsTest b, CatFeaturesPerfectHashHelper b featureId,
      FloatNanModes (FeaturesManager b) featureId, FloatBorders (FeaturesManager b) featureId)"

text \<open>
  The conditions of the source under which the task of a feature with a non-empty blob
  ends without an exception and without a column. Categorical: the size check of
  \<^verbatim>\<open>MakeOrderedLine\<close> passes, and either the feature is skipped (test mode, no known
  categories) or the indexer knows fewer than two distinct values after the update.
  Pre-binarized: the declared borders are empty. Float: the borders recorded in the
  store, else those held by the builder, else (outside test mode) those freshly built,
  are empty.
\<close>

definition Dropped :: "collaborators \<Rightarrow> TDataProviderBuilder \<Rightarrow> nat \<Rightarrow> bool" where
  "Dropped c b featureId =
     (let line = map (\<lambda>i. float_at (FeatureBlobs b ! featureId) i) (Order b)
      in case FeatureTypes b ! featureId of
           Categorical \<Rightarrow>
             length (FeatureBlobs b ! featureId) = 4 * length (Order b) \<and>
             ((IsTest b \<and> GetUniqueValues (CatFeaturesPerfectHashHelper b) featureId = 0) \<or>
              GetUniqueValues
                (snd (UpdatePerfectHashAndBinarize (CatFeaturesPerfectHashHelper b) featureId line))
                featureId \<le> 1)
         | BinarizedFloat \<Rightarrow>
             featureId < length (Borders b) \<and> featureId < length (NanModes b) \<and>
             Borders b ! featureId = []
         | Float \<Rightarrow>
             (let nanMode = fst (GetOrComputeNanMode c (FeaturesManager b) featureId line);
                  known = (case FloatBorders (FeaturesManager b) featureId of
                             Some recorded \<Rightarrow> recorded
                           | None \<Rightarrow> Borders b ! featureId)
              in (if known = [] \<and> \<not> IsTest b then BuildBorders c line featureId nanMode
                  else known) = []))"

section \<open>Properties\<close>

lemma float_is_zero_ge_zero: "float_is_zero w \<Longrightarrow> float_ge_zero w"
  by (simp add: float_ge_zero_def float_is_zero_def float_is_nan_def)

lemma float_lt_zero_not_ge_zero: "float_lt_zero w \<Longrightarrow> \<not> float_ge_zero w"
  by (simp add: float_ge_zero_def float_lt_zero_def)

lemma Abs_of_ge_zero: "float_ge_zero w \<Longrightarrow> Abs w = w"
  using float_lt_zero_not_ge_zero by (auto simp: Abs_def)

lemma ValidateWeights_loop_negative:
  "\<exists>w \<in> set ws. \<not> float_ge_zero w \<Longrightarrow> ValidateWeights_loop ws h = Inl NegativeWeight"
  by (induction ws arbitrary: h) auto

lemma ValidateWeights_loop_ok:
  "\<forall>w \<in> set ws. float_ge_zero w \<Longrightarrow>
   ValidateWeights_loop ws h = Inr (h \<or> (\<exists>w \<in> set ws. \<not> float_is_zero w))"
  by (induction ws arbitrary: h) (auto simp: float_ne_zero_def Abs_of_ge_zero)

subsection \<open>What the compile and validation phases preserve\<close>

lemma frame_refl: "frame b b"
  by (simp add: frame_def)

lemma frame_trans: "frame a b \<Longrightarrow> frame b c \<Longrightarrow> frame a c"
  by (simp add: frame_def)

lemma CompileCategorical_frame:
  "CompileCategorical c b i n = Inr (b', col, bins) \<Longrightarrow> frame b b'"
  by (auto simp: CompileCategorical_def frame_def FreeBlob_def Let_def
      split: sum.splits prod.splits if_splits)

lemma CompileBinarizedFloat_frame:
  "CompileBinarizedFloat c b i n = Inr (b', col, bins) \<Longrightarrow> frame b b'"
  by (auto simp: CompileBinarizedFloat_def frame_def FreeBlob_def Let_def
      split: sum.splits prod.splits if_splits)

lemma CompileFloat_frame:
  "CompileFloat c b i n = Inr (b', col, bins) \<Longrightarrow> frame b b'"
  by (auto simp: CompileFloat_def frame_def FreeBlob_def Let_def
      split: sum.splits prod.splits if_splits)

lemma FeatureTask_frame:
  "FeatureTask c b i = Inr (b', n, col, bins) \<Longrightarrow> frame b b'"
  by (auto simp: FeatureTask_def Let_def frame_refl
      split: sum.splits prod.splits if_splits EFeatureValuesType.splits
      dest: CompileCategorical_frame CompileBinarizedFloat_frame CompileFloat_frame)

lemma ParallelFor_Cons_Inr:
  assumes "ParallelFor c b (i # fids) = Inr (b', names, cols)"
  obtains b1 n col bins names' cols' where
    "FeatureTask c b i = Inr (b1, n, col, bins)"
    "ParallelFor c b1 fids = Inr (b', names', cols')"
    "names = n # names'" "cols = col # cols'"
proof -
  from assms obtain b1 n col bins where
    t: "FeatureTask c b i = Inr (b1, n, col, bins)"
    by (cases "FeatureTask c b i") auto
  from assms t obtain names' cols' where
    r: "ParallelFor c b1 fids = Inr (b', names', cols')" "names = n # names'" "cols = col # cols'"
    by (cases "ParallelFor c b1 fids") auto
  from t r that show ?thesis by blast
qed

lemma ParallelFor_frame:
  "ParallelFor c b fids = Inr (b', names, cols) \<Longrightarrow> frame b b'"
proof (induction fids arbitrary: b names cols)
  case Nil
  then show ?case by (simp add: frame_refl)
next
  case (Cons i fids)
  from Cons.prems obtain b1 n col bins names' cols' where
    t: "FeatureTask c b i = Inr (b1, n, col, bins)" and
    r: "ParallelFor c b1 fids = Inr (b', names', cols')"
    by (rule ParallelFor_Cons_Inr)
  from FeatureTask_frame [OF t] Cons.IH [OF r] show ?case by (rule frame_trans)
qed

lemma ReconcileFeature_frame: "frame b (ReconcileFeature b k col)"
  by (simp add: ReconcileFeature_def Let_def frame_def split: option.splits)

lemma Reconcile_frame: "frame b (Reconcile b k cols)"
proof (induction cols arbitrary: b k)
  case Nil
  then show ?case by (simp add: frame_refl)
next
  case (Cons col cols)
  show ?case
    using frame_trans [OF ReconcileFeature_frame Cons.IH] by simp
qed

lemma frame_SetTargetBorders: "frame b (SetTargetBorders c b)"
  by (simp add: frame_def SetTargetBorders_def)

lemma frame_FeatureNames: "frame b (b\<lparr>FeatureNames := x\<rparr>)"
  by (simp add: frame_def)

lemma CompileFeatures_Inr:
  assumes "CompileFeatures c b = Inr b'"
  obtains b0 names cols where
    "ParallelFor c b [0..<length (FeatureBlobs b)] = Inr (b0, names, cols)"
    "b' = (if \<not> IsTest (Reconcile b0 0 cols) then SetTargetBorders c (Reconcile b0 0 cols)
           else Reconcile b0 0 cols)\<lparr>FeatureNames := names\<rparr>"
proof (cases "ParallelFor c b [0..<length (FeatureBlobs b)]")
  case (Inl e)
  with assms show ?thesis by (simp add: CompileFeatures_def)
next
  case (Inr r)
  obtain b0 names cols where r: "r = (b0, names, cols)" by (cases r)
  from assms Inr r
  have "b' = (if \<not> IsTest (Reconcile b0 0 cols) then SetTargetBorders c (Reconcile b0 0 cols)
              else Reconcile b0 0 cols)\<lparr>FeatureNames := names\<rparr>"
    by (simp add: CompileFeatures_def Let_def)
  with Inr r that show ?thesis by blast
qed

lemma CompileFeatures_frame:
  assumes "CompileFeatures c b = Inr b'"
  shows "frame b b'"
proof -
  from assms obtain b0 names cols where
    pf: "ParallelFor c b [0..<length (FeatureBlobs b)] = Inr (b0, names, cols)" and
    b': "b' = (if \<not> IsTest (Reconcile b0 0 cols) then SetTargetBorders c (Reconcile b0 0 cols)
           else Reconcile b0 0 cols)\<lparr>FeatureNames := names\<rparr>"
    by (rule CompileFeatures_Inr)
  define b1 where "b1 = Reconcile b0 0 cols"
  define b2 where "b2 = (if \<not> IsTest b1 then SetTargetBorders c b1 else b1)"
  have b'2: "b' = b2\<lparr>FeatureNames := names\<rparr>"
    using b' by (simp only: b1_def b2_def)
  have "frame b b0" using pf by (rule ParallelFor_frame)
  moreover have "frame b0 b1" unfolding b1_def by (rule Reconcile_frame)
  moreover have "frame b1 b2" unfolding b2_def by (simp add: frame_refl frame_SetTargetBorders)
  moreover have "frame b2 b'" unfolding b'2 by (rule frame_FeatureNames)
  ultimately show ?thesis by (blast intro: frame_trans)
qed

lemma Validate_Inr:
  "Validate b = Inr b' \<Longrightarrow> b' = b\<lparr>IsDone := True\<rparr>"
  by (auto simp: Validate_def Let_def split: sum.splits if_splits)

lemma Validate_frame: "Validate b = Inr b' \<Longrightarrow> frame b b'"
  by (drule Validate_Inr) (simp add: frame_def)

lemma Finish_Inr:
  assumes "Finish c b = Inr r"
  obtains b1 b2 where
    "OrderDocuments c b = Inr b1" "CompileFeatures c b1 = Inr b2" "Validate b2 = Inr r"
  using assms by (auto simp: Finish_def split: sum.splits)

lemma Finish_frame:
  assumes "Finish c b = Inr r"
  obtains b1 where "OrderDocuments c b = Inr b1" "frame b1 r"
proof -
  from assms obtain b1 b2 where
    *: "OrderDocuments c b = Inr b1" "CompileFeatures c b1 = Inr b2" "Validate b2 = Inr r"
    by (rule Finish_Inr)
  from CompileFeatures_frame [OF *(2)] Validate_frame [OF *(3)] have "frame b1 r"
    by (rule frame_trans)
  with *(1) that show ?thesis by blast
qed

subsection \<open>The document order is a permutation\<close>

lemma length_swap_at [simp]: "length (swap_at xs i j) = length xs"
  by (simp add: swap_at_def)

lemma mset_swap_at:
  "i < length xs \<Longrightarrow> j < length xs \<Longrightarrow> mset (swap_at xs i j) = mset xs"
  unfolding swap_at_def by (rule mset_swap)

lemma length_shuffle_prefix [simp]: "length (shuffle_prefix draw n xs) = length xs"
  by (induction n arbitrary: xs) simp_all

lemma mset_shuffle_prefix:
  "n \<le> length xs \<Longrightarrow> mset (shuffle_prefix draw n xs) = mset xs"
proof (induction n arbitrary: xs)
  case 0
  then show ?case by simp
next
  case (Suc n)
  have j: "draw n mod Suc n < length xs"
    using Suc.prems by (meson Suc_le_lessD less_le_trans mod_less_divisor not_less zero_less_Suc less_imp_le_nat)
  have "mset (swap_at xs n (draw n mod Suc n)) = mset xs"
    using Suc.prems j by (intro mset_swap_at) simp_all
  moreover have "n \<le> length (swap_at xs n (draw n mod Suc n))"
    using Suc.prems by simp
  ultimately show ?case using Suc.IH by simp
qed

lemma mset_Shuffle:
  "sampleCount \<le> length order \<Longrightarrow> mset (Shuffle rng seed sampleCount order) = mset order"
  by (simp add: Shuffle_def mset_shuffle_prefix)

lemma concat_GroupSamples: "concat (GroupSamples qids rows) = rows"
  by (induction rows) (auto split: list.splits)

lemma mset_concat_perm:
  assumes "mset xss = mset yss"
  shows "mset (concat xss) = mset (concat yss)"
proof -
  have "mset (map mset xss) = mset (map mset yss)"
    using assms by (metis mset_map)
  then have "sum_list (map mset xss) = sum_list (map mset yss)"
    by (metis sum_mset_sum_list)
  then show ?thesis by (simp add: mset_concat)
qed

lemma mset_QueryConsistentShuffle:
  "mset (QueryConsistentShuffle rng seed qids) = mset [0..<length qids]"
proof -
  define groups where "groups = GroupSamples qids [0..<length qids]"
  have "mset (shuffle_prefix (rng seed) (length groups) groups) = mset groups"
    by (rule mset_shuffle_prefix) simp
  then have "mset (concat (shuffle_prefix (rng seed) (length groups) groups)) = mset (concat groups)"
    by (rule mset_concat_perm)
  then show ?thesis
    by (simp add: QueryConsistentShuffle_def Let_def groups_def concat_GroupSamples)
qed

lemma mset_CreateOrderByKey: "mset (CreateOrderByKey key) = mset [0..<length key]"
  by (simp add: CreateOrderByKey_def)

lemma ComputeOrder_fields:
  "Targets (ComputeOrder b) = Targets b" "Weights (ComputeOrder b) = Weights b"
  "QueryIds (ComputeOrder b) = QueryIds b" "Timestamp (ComputeOrder b) = Timestamp b"
  "Pairs (ComputeOrder b) = Pairs b" "Seed (ComputeOrder b) = Seed b"
  "IsTest (ComputeOrder b) = IsTest b" "TargetHelper (ComputeOrder b) = TargetHelper b"
  "ShuffleFlag (ComputeOrder b) = (ShuffleFlag b \<and> AreEqualTo (Timestamp b) 0)"
  "Order (ComputeOrder b) =
     (if AreEqualTo (Timestamp b) 0 then [0..<length (Targets b)]
      else CreateOrderByKey (Timestamp b))"
  by (simp_all add: ComputeOrder_def Let_def)

lemma ClearQueryIds_fields:
  "Targets (ClearQueryIds h b) = Targets b" "Weights (ClearQueryIds h b) = Weights b"
  "QueryIds (ClearQueryIds h b) = (if h then QueryIds b else [])"
  "Timestamp (ClearQueryIds h b) = Timestamp b"
  "Pairs (ClearQueryIds h b) = Pairs b" "Seed (ClearQueryIds h b) = Seed b"
  "IsTest (ClearQueryIds h b) = IsTest b" "TargetHelper (ClearQueryIds h b) = TargetHelper b"
  "ShuffleFlag (ClearQueryIds h b) = ShuffleFlag b" "Order (ClearQueryIds h b) = Order b"
  by (simp_all add: ClearQueryIds_def)

lemma MakeTargetAndWeights_fields:
  "QueryIds (MakeTargetAndWeights b) = QueryIds b"
  "Timestamp (MakeTargetAndWeights b) = Timestamp b"
  "Pairs (MakeTargetAndWeights b) = Pairs b" "Seed (MakeTargetAndWeights b) = Seed b"
  "ShuffleFlag (MakeTargetAndWeights b) = ShuffleFlag b"
  "Order (MakeTargetAndWeights b) = Order b"
  by (simp_all add: MakeTargetAndWeights_def split: option.splits prod.splits)

lemma MakeTargetAndWeights_cong:
  "TargetHelper b' = TargetHelper b \<Longrightarrow> IsTest b' = IsTest b \<Longrightarrow> Targets b' = Targets b \<Longrightarrow>
   Weights b' = Weights b \<Longrightarrow>
   Targets (MakeTargetAndWeights b') = Targets (MakeTargetAndWeights b) \<and>
   Weights (MakeTargetAndWeights b') = Weights (MakeTargetAndWeights b)"
  by (simp add: MakeTargetAndWeights_def split: option.splits prod.splits)

lemma FillPairs_Inr:
  "FillPairs c h b = Inr b' \<Longrightarrow>
   (Pairs b \<noteq> [] \<longrightarrow> h) \<and>
   b' = (if Pairs b \<noteq> [] then b\<lparr>QueryPairs := FillQueryPairs c (QueryIds b) (Pairs b)\<rparr> else b)"
  by (auto simp: FillPairs_def split: if_splits)

lemma FillPairs_Inl:
  "FillPairs c h b = Inl e \<Longrightarrow> e = PairsWithoutQueryIds \<and> Pairs b \<noteq> [] \<and> \<not> h"
  by (auto simp: FillPairs_def split: if_splits)

lemma FillPairs_fields:
  assumes "FillPairs c h b = Inr b'"
  shows "Targets b' = Targets b" "Weights b' = Weights b" "QueryIds b' = QueryIds b"
    "Timestamp b' = Timestamp b" "Pairs b' = Pairs b" "Seed b' = Seed b"
    "ShuffleFlag b' = ShuffleFlag b" "Order b' = Order b"
  using FillPairs_Inr [OF assms] by (simp_all split: if_splits)

lemma ShuffleOrder_fields:
  "Targets (ShuffleOrder c h b) = Targets b" "Weights (ShuffleOrder c h b) = Weights b"
  "QueryIds (ShuffleOrder c h b) = QueryIds b" "Timestamp (ShuffleOrder c h b) = Timestamp b"
  "Pairs (ShuffleOrder c h b) = Pairs b" "ShuffleFlag (ShuffleOrder c h b) = ShuffleFlag b"
  "QueryPairs (ShuffleOrder c h b) = QueryPairs b"
  "Order (ShuffleOrder c h b) =
     (if ShuffleFlag b
      then (if h then QueryConsistentShuffle (Rng c) (Seed b) (QueryIds b)
            else Shuffle (Rng c) (Seed b) (length (Targets b)) (Order b))
      else Order b)"
  by (simp_all add: ShuffleOrder_def Let_def)

lemma ApplyOrderToMetaColumns_fields:
  "Order (ApplyOrderToMetaColumns b) = Order b" "Pairs (ApplyOrderToMetaColumns b) = Pairs b"
  "QueryPairs (ApplyOrderToMetaColumns b) = QueryPairs b"
  "Targets (ApplyOrderToMetaColumns b) = ApplyPermutation (Order b) (Targets b)"
  "Weights (ApplyOrderToMetaColumns b) = ApplyPermutation (Order b) (Weights b)"
  "QueryIds (ApplyOrderToMetaColumns b) = ApplyPermutation (Order b) (QueryIds b)"
  by (simp_all add: ApplyOrderToMetaColumns_def)

text \<open>The state in which \<^verbatim>\<open>Finish\<close> reaches the shuffle, and what the first phase returns.\<close>

lemma OrderDocuments_Inr:
  assumes "OrderDocuments c b = Inr b1"
  obtains b4 where
    "\<not> IsDone b"
    "FillPairs c (HasQueryIds (QueryIds b))
       (MakeTargetAndWeights (ClearQueryIds (HasQueryIds (QueryIds b)) (ComputeOrder b))) = Inr b4"
    "b1 = (if ShuffleFlag (ShuffleOrder c (HasQueryIds (QueryIds b)) b4) \<or>
              Timestamp (ShuffleOrder c (HasQueryIds (QueryIds b)) b4) \<noteq> []
           then ApplyOrderToMetaColumns (ShuffleOrder c (HasQueryIds (QueryIds b)) b4)
           else ShuffleOrder c (HasQueryIds (QueryIds b)) b4)"
proof -
  have nd: "\<not> IsDone b" using assms by (auto simp: OrderDocuments_def)
  let ?h = "HasQueryIds (QueryIds b)"
  let ?b3 = "MakeTargetAndWeights (ClearQueryIds ?h (ComputeOrder b))"
  show ?thesis
  proof (cases "FillPairs c ?h ?b3")
    case (Inl e)
    with assms nd show ?thesis
      by (simp add: OrderDocuments_def Let_def ComputeOrder_fields)
  next
    case (Inr b4)
    with assms nd have "b1 = (if ShuffleFlag (ShuffleOrder c ?h b4) \<or>
              Timestamp (ShuffleOrder c ?h b4) \<noteq> []
           then ApplyOrderToMetaColumns (ShuffleOrder c ?h b4)
           else ShuffleOrder c ?h b4)"
      by (simp add: OrderDocuments_def Let_def ComputeOrder_fields)
    with nd Inr that show ?thesis by blast
  qed
qed

lemma OrderDocuments_Order:
  assumes "OrderDocuments c b = Inr b1"
  shows "Order b1 =
     (if \<not> AreEqualTo (Timestamp b) 0 then CreateOrderByKey (Timestamp b)
      else if ShuffleFlag b
      then (if HasQueryIds (QueryIds b)
            then QueryConsistentShuffle (Rng c) (Seed b) (QueryIds b)
            else Shuffle (Rng c) (Seed b) (length (Targets (MakeTargetAndWeights b)))
                   [0..<length (Targets b)])
      else [0..<length (Targets b)])"
proof -
  let ?h = "HasQueryIds (QueryIds b)"
  let ?b2 = "ClearQueryIds ?h (ComputeOrder b)"
  from assms obtain b4 where
    fp: "FillPairs c ?h (MakeTargetAndWeights ?b2) = Inr b4" and
    b1: "b1 = (if ShuffleFlag (ShuffleOrder c ?h b4) \<or> Timestamp (ShuffleOrder c ?h b4) \<noteq> []
           then ApplyOrderToMetaColumns (ShuffleOrder c ?h b4)
           else ShuffleOrder c ?h b4)"
    by (rule OrderDocuments_Inr)
  have t: "Targets (MakeTargetAndWeights (ClearQueryIds h (ComputeOrder b))) =
      Targets (MakeTargetAndWeights b)" for h
    using MakeTargetAndWeights_cong [of "ClearQueryIds h (ComputeOrder b)" b]
    by (simp add: ComputeOrder_fields ClearQueryIds_fields)
  have "Order b1 = Order (ShuffleOrder c ?h b4)"
    using b1 by (simp add: ApplyOrderToMetaColumns_fields)
  then show ?thesis
    using t by (simp add: ShuffleOrder_fields FillPairs_fields [OF fp] MakeTargetAndWeights_fields
        ClearQueryIds_fields ComputeOrder_fields)
qed

lemma OrderDocuments_Order_mset:
  assumes "OrderDocuments c b = Inr b1" and "rows_consistent b"
  shows "mset (Order b1) = mset [0..<length (Targets b)]"
proof -
  from assms(2) have len:
    "length (QueryIds b) = length (Targets b)" "length (Timestamp b) = length (Targets b)"
    "length (Targets (MakeTargetAndWeights b)) = length (Targets b)"
    by (simp_all add: rows_consistent_def)
  show ?thesis
    unfolding OrderDocuments_Order [OF assms(1)]
    using len mset_CreateOrderByKey [of "Timestamp b"]
      mset_QueryConsistentShuffle [of "Rng c" "Seed b" "QueryIds b"]
      mset_Shuffle [of "length (Targets b)" "[0..<length (Targets b)]" "Rng c" "Seed b"]
    by simp
qed

lemma Finish_Order:
  assumes "Finish c b = Inr r"
  obtains b1 where "OrderDocuments c b = Inr b1" "Order r = Order b1"
  using assms by (elim Finish_frame) (simp add: frame_def)

subsection \<open>Which errors each phase can raise\<close>

lemma FeatureTask_Inl: "FeatureTask c b i = Inl e \<Longrightarrow> compile_error e"
  by (auto simp: FeatureTask_def CompileCategorical_def CompileBinarizedFloat_def CompileFloat_def
      MakeOrderedLine_float_def MakeOrderedLine_ui8_def SetOrCheckNanMode_def Let_def compile_error_def
      split: sum.splits prod.splits if_splits EFeatureValuesType.splits option.splits)

lemma ParallelFor_Inl: "ParallelFor c b fids = Inl e \<Longrightarrow> compile_error e"
proof (induction fids arbitrary: b)
  case Nil
  then show ?case by simp
next
  case (Cons i fids)
  show ?case
  proof (cases "FeatureTask c b i")
    case (Inl e')
    with Cons.prems have "e' = e" by simp
    with Inl show ?thesis by (auto dest: FeatureTask_Inl)
  next
    case (Inr t)
    obtain b1 n col bins where t: "t = (b1, n, col, bins)" by (cases t)
    with Inr Cons.prems have "ParallelFor c b1 fids = Inl e"
      by (cases "ParallelFor c b1 fids") auto
    then show ?thesis by (rule Cons.IH)
  qed
qed

lemma CompileFeatures_Inl: "CompileFeatures c b = Inl e \<Longrightarrow> compile_error e"
  by (cases "ParallelFor c b [0..<length (FeatureBlobs b)]")
     (auto simp: CompileFeatures_def Let_def dest: ParallelFor_Inl)

lemma ValidateWeights_loop_Inl: "ValidateWeights_loop ws h = Inl e \<Longrightarrow> e = NegativeWeight"
  by (induction ws arbitrary: h) (auto split: if_splits)

lemma Validate_Inl:
  "Validate b = Inl e \<Longrightarrow> e = NegativeWeight \<or> e = AllWeightsZero \<or> e = ConstantTargetNoPairs"
  by (auto simp: Validate_def ValidateWeights_def Let_def
      split: sum.splits if_splits dest: ValidateWeights_loop_Inl)

lemma OrderDocuments_Inl:
  "OrderDocuments c b = Inl e \<Longrightarrow>
   (IsDone b \<and> e = AlreadyFinished) \<or>
   (\<not> IsDone b \<and> e = PairsWithoutQueryIds \<and> Pairs b \<noteq> [] \<and> \<not> HasQueryIds (QueryIds b))"
  by (auto simp: OrderDocuments_def Let_def ComputeOrder_fields ClearQueryIds_fields
      MakeTargetAndWeights_fields split: if_splits sum.splits dest!: FillPairs_Inl)

lemma OrderDocuments_pairs_without_ids:
  "\<not> IsDone b \<Longrightarrow> Pairs b \<noteq> [] \<Longrightarrow> \<not> HasQueryIds (QueryIds b) \<Longrightarrow>
   OrderDocuments c b = Inl PairsWithoutQueryIds"
  by (simp add: OrderDocuments_def Let_def ComputeOrder_fields ClearQueryIds_fields
      MakeTargetAndWeights_fields FillPairs_def)

lemma Finish_OrderDocuments_Inl: "OrderDocuments c b = Inl e \<Longrightarrow> Finish c b = Inl e"
  by (simp add: Finish_def)

lemma Finish_Inl:
  assumes "Finish c b = Inl e"
  shows "OrderDocuments c b = Inl e \<or> compile_error e \<or>
         e = NegativeWeight \<or> e = AllWeightsZero \<or> e = ConstantTargetNoPairs"
proof (cases "OrderDocuments c b")
  case (Inl e')
  with assms show ?thesis by (simp add: Finish_def)
next
  case (Inr b1)
  show ?thesis
  proof (cases "CompileFeatures c b1")
    case (Inl e')
    with assms Inr have "e' = e" by (simp add: Finish_def)
    with Inl show ?thesis by (auto dest: CompileFeatures_Inl)
  next
    case Inr2: (Inr b2)
    with assms Inr have "Validate b2 = Inl e" by (simp add: Finish_def)
    then show ?thesis by (auto dest: Validate_Inl)
  qed
qed

lemma OrderDocuments_QueryPairs:
  assumes "OrderDocuments c b = Inr b1" and "Pairs b \<noteq> []"
  shows "HasQueryIds (QueryIds b) \<and> QueryPairs b1 = FillQueryPairs c (QueryIds b) (Pairs b)"
proof -
  let ?h = "HasQueryIds (QueryIds b)"
  let ?b3 = "MakeTargetAndWeights (ClearQueryIds ?h (ComputeOrder b))"
  from assms(1) obtain b4 where
    fp: "FillPairs c ?h ?b3 = Inr b4" and
    b1: "b1 = (if ShuffleFlag (ShuffleOrder c ?h b4) \<or> Timestamp (ShuffleOrder c ?h b4) \<noteq> []
           then ApplyOrderToMetaColumns (ShuffleOrder c ?h b4)
           else ShuffleOrder c ?h b4)"
    by (rule OrderDocuments_Inr)
  have p: "Pairs ?b3 = Pairs b"
    by (simp add: MakeTargetAndWeights_fields ClearQueryIds_fields ComputeOrder_fields)
  from FillPairs_Inr [OF fp] p assms(2) have h: ?h and
    b4: "b4 = ?b3\<lparr>QueryPairs := FillQueryPairs c (QueryIds ?b3) (Pairs b)\<rparr>"
    by simp_all
  have q: "QueryIds ?b3 = QueryIds b"
    using h by (simp add: MakeTargetAndWeights_fields ClearQueryIds_fields ComputeOrder_fields)
  have "QueryPairs b1 = QueryPairs b4"
    using b1 by (simp add: ApplyOrderToMetaColumns_fields ShuffleOrder_fields)
  with b4 q h show ?thesis by simp
qed

subsection \<open>Group ids equal to the row index\<close>

lemma HasQueryIds_from_iff:
  "HasQueryIds_from i qids \<longleftrightarrow> (\<exists>k < length qids. qids ! k \<noteq> of_nat (i + k))"
proof (induction qids arbitrary: i)
  case Nil
  then show ?case by simp
next
  case (Cons q qids)
  have "(\<exists>k < length (q # qids). (q # qids) ! k \<noteq> of_nat (i + k)) \<longleftrightarrow>
        q \<noteq> of_nat i \<or> (\<exists>k < length qids. qids ! k \<noteq> of_nat (Suc i + k))"
    by (simp only: list.size Ex_less_Suc2 nth_Cons_0 nth_Cons_Suc add_0_right add_Suc_right
        add_Suc One_nat_def add_0)
  with Cons.IH [of "Suc i"] show ?case by (simp only: HasQueryIds_from.simps if_not_P if_P split: if_splits) auto
qed

lemma HasQueryIds_iff:
  "HasQueryIds qids \<longleftrightarrow> (\<exists>k < length qids. qids ! k \<noteq> of_nat k)"
  by (simp add: HasQueryIds_def HasQueryIds_from_iff)

lemma OrderDocuments_QueryIds_cleared:
  assumes "OrderDocuments c b = Inr b1" and "\<not> HasQueryIds (QueryIds b)"
  shows "QueryIds b1 = []"
proof -
  let ?h = "HasQueryIds (QueryIds b)"
  let ?b3 = "MakeTargetAndWeights (ClearQueryIds ?h (ComputeOrder b))"
  from assms(1) obtain b4 where
    fp: "FillPairs c ?h ?b3 = Inr b4" and
    b1: "b1 = (if ShuffleFlag (ShuffleOrder c ?h b4) \<or> Timestamp (ShuffleOrder c ?h b4) \<noteq> []
           then ApplyOrderToMetaColumns (ShuffleOrder c ?h b4)
           else ShuffleOrder c ?h b4)"
    by (rule OrderDocuments_Inr)
  have "QueryIds b4 = []"
    using assms(2)
    by (simp add: FillPairs_fields [OF fp] MakeTargetAndWeights_fields ClearQueryIds_fields)
  then show ?thesis
    using b1 by (simp add: ApplyOrderToMetaColumns_fields ShuffleOrder_fields ApplyPermutation_def)
qed

text \<open>
  C2. If at least one timestamp is non-zero, the document order that \<^verbatim>\<open>Finish\<close> produces is
  the stable ascending sort of the row indices by timestamp: it is the order computed by
  \<open>CreateOrderByKey\<close>, the timestamps read along it never decrease, rows with equal
  timestamps keep their original relative order, and every row occurs once. The order is
  the same for every setting of the shuffle flag and of the seed.
\<close>

theorem timestamp_order_ignores_shuffle:
  assumes "\<exists>t \<in> set (Timestamp b). t \<noteq> 0"
    and "Finish c (b\<lparr>ShuffleFlag := flag, Seed := seed\<rparr>) = Inr r"
  shows "Order r = CreateOrderByKey (Timestamp b) \<and>
         sorted (map (\<lambda>i. Timestamp b ! i) (Order r)) \<and>
         (\<forall>k. filter (\<lambda>i. Timestamp b ! i = k) (Order r) =
              filter (\<lambda>i. Timestamp b ! i = k) [0..<length (Timestamp b)]) \<and>
         mset (Order r) = mset [0..<length (Timestamp b)]"
proof -
  let ?b = "b\<lparr>ShuffleFlag := flag, Seed := seed\<rparr>"
  from assms(2) obtain b1 where
    od: "OrderDocuments c ?b = Inr b1" and o: "Order r = Order b1"
    by (rule Finish_Order)
  have "\<not> AreEqualTo (Timestamp ?b) 0"
    using assms(1) by (simp add: AreEqualTo_def list_all_iff)
  with OrderDocuments_Order [OF od] o have eq: "Order r = CreateOrderByKey (Timestamp b)"
    by simp
  show ?thesis
    unfolding eq by (simp add: CreateOrderByKey_def sort_key_stable)
qed

theorem timestamp_order_ignores_shuffle_witness:
  "(\<exists>t \<in> set (Timestamp (sample_builder\<lparr>Timestamp := [9, 3, 3]\<rparr>)). t \<noteq> 0) \<and>
   Finish sample_collaborators
     (sample_builder\<lparr>Timestamp := [9, 3, 3], ShuffleFlag := True, Seed := 5\<rparr>) =
   Inr (projr (Finish sample_collaborators
     (sample_builder\<lparr>Timestamp := [9, 3, 3], ShuffleFlag := True, Seed := 5\<rparr>))) \<and>
   Order (projr (Finish sample_collaborators
     (sample_builder\<lparr>Timestamp := [9, 3, 3], ShuffleFlag := True, Seed := 5\<rparr>))) = [1, 2, 0]"
proof -
  let ?b = "sample_builder\<lparr>Timestamp := [9, 3, 3]\<rparr>"
  let ?F = "Finish sample_collaborators (?b\<lparr>ShuffleFlag := True, Seed := 5\<rparr>)"
  have h1: "\<exists>t \<in> set (Timestamp ?b). t \<noteq> 0" by (simp add: sample_builder_def)
  have "\<not> isl ?F" by code_simp
  then have h2: "?F = Inr (projr ?F)" by simp
  have "CreateOrderByKey (Timestamp ?b) = [1, 2, 0]" by code_simp
  with timestamp_order_ignores_shuffle [OF h1 h2] h1 h2 show ?thesis by simp
qed

text \<open>
  C3. For a builder whose per-document arrays all have one entry per document, the document
  order that \<^verbatim>\<open>Finish\<close> produces is a bijection on the row indices below the document
  count, whatever the timestamps, the shuffle flag, the seed and the group ids are; when
  every timestamp is zero and shuffling is not requested it is the identity.
\<close>

theorem order_is_bijection:
  assumes "rows_consistent b" and "Finish c b = Inr r"
  shows "length (Order r) = length (Targets b) \<and> distinct (Order r) \<and>
         set (Order r) = {0..<length (Targets b)} \<and>
         (AreEqualTo (Timestamp b) 0 \<and> \<not> ShuffleFlag b \<longrightarrow> Order r = [0..<length (Targets b)])"
proof -
  from assms(2) obtain b1 where
    od: "OrderDocuments c b = Inr b1" and o: "Order r = Order b1"
    by (rule Finish_Order)
  have m: "mset (Order r) = mset [0..<length (Targets b)]"
    unfolding o using od assms(1) by (rule OrderDocuments_Order_mset)
  have "length (Order r) = length (Targets b)"
    using mset_eq_length [OF m] by simp
  moreover have "distinct (Order r)"
    using mset_eq_imp_distinct_iff [OF m] by simp
  moreover have "set (Order r) = {0..<length (Targets b)}"
    using mset_eq_setD [OF m] by simp
  moreover have "AreEqualTo (Timestamp b) 0 \<and> \<not> ShuffleFlag b \<longrightarrow> Order r = [0..<length (Targets b)]"
    unfolding o OrderDocuments_Order [OF od] by simp
  ultimately show ?thesis by simp
qed

theorem order_is_bijection_witness:
  "rows_consistent (sample_builder\<lparr>ShuffleFlag := True, Seed := 5, QueryIds := [7, 7, 9]\<rparr>) \<and>
   Order (projr (Finish sample_collaborators
     (sample_builder\<lparr>ShuffleFlag := True, Seed := 5, QueryIds := [7, 7, 9]\<rparr>))) = [2, 0, 1] \<and>
   set (Order (projr (Finish sample_collaborators
     (sample_builder\<lparr>ShuffleFlag := True, Seed := 5, QueryIds := [7, 7, 9]\<rparr>)))) = {0..<3} \<and>
   distinct (Order (projr (Finish sample_collaborators
     (sample_builder\<lparr>ShuffleFlag := True, Seed := 5, QueryIds := [7, 7, 9]\<rparr>))))"
proof -
  let ?b = "sample_builder\<lparr>ShuffleFlag := True, Seed := 5, QueryIds := [7, 7, 9]\<rparr>"
  let ?F = "Finish sample_collaborators ?b"
  have h1: "rows_consistent ?b"
    by (simp add: rows_consistent_def MakeTargetAndWeights_def sample_builder_def)
  have "\<not> isl ?F" by code_simp
  then have h2: "?F = Inr (projr ?F)" by simp
  have o: "Order (projr ?F) = [2, 0, 1]" by code_simp
  have len: "length (Targets ?b) = 3" by (simp add: sample_builder_def)
  have s: "set (Order (projr ?F)) = {0..<3}"
    using order_is_bijection [OF h1 h2] unfolding len by blast
  have d: "distinct (Order (projr ?F))"
    using order_is_bijection [OF h1 h2] by simp
  from h1 o s d show ?thesis by (intro conjI)
qed

text \<open>
  C6. When a non-empty pair list was supplied and the group ids are not present (no row's
  group id differs from its index), \<^verbatim>\<open>Finish\<close> fails, and on a builder not yet finished
  the error is the missing-group-id error. When group ids are present, \<^verbatim>\<open>Finish\<close> never
  fails with that error, and a successful run holds the per-group pairs derived by
  \<^verbatim>\<open>FillQueryPairs\<close> from the group ids and the pairs.
\<close>

theorem pairs_require_group_ids:
  assumes "Pairs b \<noteq> []"
  shows "(\<not> HasQueryIds (QueryIds b) \<longrightarrow>
            (\<exists>e. Finish c b = Inl e) \<and>
            (\<not> IsDone b \<longrightarrow> Finish c b = Inl PairsWithoutQueryIds)) \<and>
         (HasQueryIds (QueryIds b) \<longrightarrow>
            Finish c b \<noteq> Inl PairsWithoutQueryIds \<and>
            (\<forall>r. Finish c b = Inr r \<longrightarrow>
                 QueryPairs r = FillQueryPairs c (QueryIds b) (Pairs b)))"
proof (intro conjI impI allI)
  assume h: "\<not> HasQueryIds (QueryIds b)"
  show "\<exists>e. Finish c b = Inl e"
  proof (cases "IsDone b")
    case True
    then have "OrderDocuments c b = Inl AlreadyFinished" by (simp add: OrderDocuments_def)
    then show ?thesis by (auto dest: Finish_OrderDocuments_Inl)
  next
    case False
    with assms h have "OrderDocuments c b = Inl PairsWithoutQueryIds"
      by (simp add: OrderDocuments_pairs_without_ids)
    then show ?thesis by (auto dest: Finish_OrderDocuments_Inl)
  qed
next
  assume "\<not> HasQueryIds (QueryIds b)" and "\<not> IsDone b"
  with assms have "OrderDocuments c b = Inl PairsWithoutQueryIds"
    by (simp add: OrderDocuments_pairs_without_ids)
  then show "Finish c b = Inl PairsWithoutQueryIds" by (rule Finish_OrderDocuments_Inl)
next
  assume h: "HasQueryIds (QueryIds b)"
  show "Finish c b \<noteq> Inl PairsWithoutQueryIds"
  proof
    assume "Finish c b = Inl PairsWithoutQueryIds"
    from Finish_Inl [OF this] h show False
      by (auto simp: compile_error_def dest: OrderDocuments_Inl)
  qed
next
  fix r
  assume "HasQueryIds (QueryIds b)" and f: "Finish c b = Inr r"
  from f obtain b1 where od: "OrderDocuments c b = Inr b1" and fr: "frame b1 r"
    by (rule Finish_frame)
  from OrderDocuments_QueryPairs [OF od assms] fr
  show "QueryPairs r = FillQueryPairs c (QueryIds b) (Pairs b)"
    by (simp add: frame_def)
qed

theorem pairs_require_group_ids_witness:
  "Pairs (sample_builder\<lparr>Pairs := [\<lparr>WinnerId = 0, LoserId = 1, Weight = 0x3F800000\<rparr>]\<rparr>) \<noteq> [] \<and>
   \<not> HasQueryIds (QueryIds (sample_builder\<lparr>Pairs := [\<lparr>WinnerId = 0, LoserId = 1, Weight = 0x3F800000\<rparr>]\<rparr>)) \<and>
   Finish sample_collaborators
     (sample_builder\<lparr>Pairs := [\<lparr>WinnerId = 0, LoserId = 1, Weight = 0x3F800000\<rparr>]\<rparr>) =
   Inl PairsWithoutQueryIds \<and>
   HasQueryIds (QueryIds (sample_builder\<lparr>QueryIds := [7, 7, 9],
     Pairs := [\<lparr>WinnerId = 0, LoserId = 1, Weight = 0x3F800000\<rparr>]\<rparr>)) \<and>
   QueryPairs (projr (Finish sample_collaborators (sample_builder\<lparr>QueryIds := [7, 7, 9],
     Pairs := [\<lparr>WinnerId = 0, LoserId = 1, Weight = 0x3F800000\<rparr>]\<rparr>))) =
   [(7, [\<lparr>WinnerId = 0, LoserId = 1, Weight = 0x3F800000\<rparr>])]"
proof -
  let ?p = "\<lparr>WinnerId = 0, LoserId = 1, Weight = 0x3F800000\<rparr>"
  let ?b = "sample_builder\<lparr>Pairs := [?p]\<rparr>"
  let ?b' = "sample_builder\<lparr>QueryIds := [7, 7, 9], Pairs := [?p]\<rparr>"
  let ?F = "Finish sample_collaborators ?b'"
  have p: "Pairs ?b \<noteq> []" and p': "Pairs ?b' \<noteq> []" by simp_all
  have h: "\<not> HasQueryIds (QueryIds ?b)" and d: "\<not> IsDone ?b"
    by (simp_all add: sample_builder_def HasQueryIds_def)
  have h': "HasQueryIds (QueryIds ?b')" by (simp add: HasQueryIds_def)
  have "\<not> isl ?F" by code_simp
  then have r: "?F = Inr (projr ?F)" by simp
  have q: "FillQueryPairs sample_collaborators (QueryIds ?b') (Pairs ?b') = [(7, [?p])]"
    by (simp add: sample_collaborators_def)
  from pairs_require_group_ids [OF p, of sample_collaborators] h d
  have 1: "Finish sample_collaborators ?b = Inl PairsWithoutQueryIds" by blast
  from pairs_require_group_ids [OF p', of sample_collaborators] h' r
  have "QueryPairs (projr ?F) = FillQueryPairs sample_collaborators (QueryIds ?b') (Pairs ?b')"
    by blast
  with q have 2: "QueryPairs (projr ?F) = [(7, [?p])]" by simp
  from p h 1 h' 2 show ?thesis by (intro conjI)
qed

text \<open>
  C10. When every group id equals its own row index (the default fill of
  \<^verbatim>\<open>StartNextBlock\<close>), \<^verbatim>\<open>Finish\<close> treats the group ids as absent: \<^verbatim>\<open>HasQueryIds\<close> is false,
  a supplied pair list fails the group-id requirement, and a successful run leaves the
  group-id array empty and, when it shuffles, uses the ungrouped shuffle of all rows.
\<close>

theorem default_group_ids_are_absent:
  assumes "\<forall>i < length (QueryIds b). QueryIds b ! i = of_nat i" and "\<not> IsDone b"
  shows "\<not> HasQueryIds (QueryIds b) \<and>
         (Pairs b \<noteq> [] \<longrightarrow> Finish c b = Inl PairsWithoutQueryIds) \<and>
         (\<forall>r. Finish c b = Inr r \<longrightarrow>
              QueryIds r = [] \<and>
              (ShuffleFlag b \<and> AreEqualTo (Timestamp b) 0 \<longrightarrow>
                 Order r = Shuffle (Rng c) (Seed b) (length (Targets (MakeTargetAndWeights b)))
                             [0..<length (Targets b)]))"
proof -
  have h: "\<not> HasQueryIds (QueryIds b)"
    using assms(1) by (simp add: HasQueryIds_iff)
  have "Finish c b = Inl PairsWithoutQueryIds" if "Pairs b \<noteq> []"
    using that h assms(2)
    by (intro Finish_OrderDocuments_Inl OrderDocuments_pairs_without_ids)
  moreover have "QueryIds r = [] \<and>
      (ShuffleFlag b \<and> AreEqualTo (Timestamp b) 0 \<longrightarrow>
         Order r = Shuffle (Rng c) (Seed b) (length (Targets (MakeTargetAndWeights b)))
                     [0..<length (Targets b)])" if f: "Finish c b = Inr r" for r
  proof -
    from f obtain b1 where od: "OrderDocuments c b = Inr b1" and fr: "frame b1 r"
      by (rule Finish_frame)
    have "QueryIds r = []"
      using OrderDocuments_QueryIds_cleared [OF od h] fr by (simp add: frame_def)
    moreover have "Order r = Order b1" using fr by (simp add: frame_def)
    ultimately show ?thesis
      using h by (simp add: OrderDocuments_Order [OF od])
  qed
  ultimately show ?thesis using h by blast
qed

theorem default_group_ids_are_absent_witness:
  "QueryIds (StartNextBlock (sample_builder\<lparr>ShuffleFlag := True, Seed := 5\<rparr>) 2) = [0, 1, 2, 3, 4] \<and>
   \<not> HasQueryIds (QueryIds (sample_builder\<lparr>ShuffleFlag := True, Seed := 5\<rparr>)) \<and>
   QueryIds (projr (Finish sample_collaborators (sample_builder\<lparr>ShuffleFlag := True, Seed := 5\<rparr>))) = [] \<and>
   Order (projr (Finish sample_collaborators (sample_builder\<lparr>ShuffleFlag := True, Seed := 5\<rparr>))) =
     Shuffle (Rng sample_collaborators) 5 3 [0, 1, 2] \<and>
   Order (projr (Finish sample_collaborators (sample_builder\<lparr>ShuffleFlag := True, Seed := 5\<rparr>))) =
     [2, 0, 1]"
proof -
  let ?b = "sample_builder\<lparr>ShuffleFlag := True, Seed := 5\<rparr>"
  let ?F = "Finish sample_collaborators ?b"
  have nh: "\<not> HasQueryIds (QueryIds ?b)"
    by (simp add: sample_builder_def HasQueryIds_def)
  have a: "\<forall>i < length (QueryIds ?b). QueryIds ?b ! i = of_nat i"
    using nh [unfolded HasQueryIds_iff] by blast
  have s: "QueryIds (StartNextBlock ?b 2) = [0, 1, 2, 3, 4]"
    by (simp add: StartNextBlock_def sample_builder_def resize_def Let_def upt_conv_Cons)
  have d: "\<not> IsDone ?b" by (simp add: sample_builder_def)
  have "\<not> isl ?F" by code_simp
  then have r: "?F = Inr (projr ?F)" by simp
  have t: "ShuffleFlag ?b \<and> AreEqualTo (Timestamp ?b) 0"
    by (simp add: sample_builder_def AreEqualTo_def)
  have l: "Shuffle (Rng sample_collaborators) (Seed ?b)
             (length (Targets (MakeTargetAndWeights ?b))) [0..<length (Targets ?b)] =
           Shuffle (Rng sample_collaborators) 5 3 [0, 1, 2]"
    by code_simp
  have v: "Order (projr ?F) = [2, 0, 1]" by code_simp
  from default_group_ids_are_absent [OF a d, of sample_collaborators] r t
  have "QueryIds (projr ?F) = [] \<and>
        Order (projr ?F) = Shuffle (Rng sample_collaborators) (Seed ?b)
             (length (Targets (MakeTargetAndWeights ?b))) [0..<length (Targets ?b)]"
    by blast
  with l s nh v show ?thesis by simp
qed

subsection \<open>The arrays that reach the validation\<close>

lemma set_ApplyPermutation:
  assumes "mset order = mset [0..<length xs]"
  shows "set (ApplyPermutation order xs) = set xs"
proof -
  have "set order = {0..<length xs}"
    using mset_eq_setD [OF assms] by simp
  then have "(\<lambda>i. xs ! i) ` set order = set xs"
    by (simp add: set_conv_nth) (auto simp: image_def)
  then show ?thesis by (simp add: ApplyPermutation_def)
qed

lemma OrderDocuments_Targets_Weights:
  assumes "OrderDocuments c b = Inr b1"
  shows "Pairs b1 = Pairs b \<and>
         (Targets b1 = Targets (MakeTargetAndWeights b) \<and>
          Weights b1 = Weights (MakeTargetAndWeights b) \<or>
          Targets b1 = ApplyPermutation (Order b1) (Targets (MakeTargetAndWeights b)) \<and>
          Weights b1 = ApplyPermutation (Order b1) (Weights (MakeTargetAndWeights b)))"
proof -
  let ?h = "HasQueryIds (QueryIds b)"
  from assms obtain b4 where
    fp: "FillPairs c ?h (MakeTargetAndWeights (ClearQueryIds ?h (ComputeOrder b))) = Inr b4" and
    b1: "b1 = (if ShuffleFlag (ShuffleOrder c ?h b4) \<or> Timestamp (ShuffleOrder c ?h b4) \<noteq> []
           then ApplyOrderToMetaColumns (ShuffleOrder c ?h b4)
           else ShuffleOrder c ?h b4)"
    by (rule OrderDocuments_Inr)
  have t: "Targets (MakeTargetAndWeights (ClearQueryIds h (ComputeOrder b))) =
             Targets (MakeTargetAndWeights b) \<and>
           Weights (MakeTargetAndWeights (ClearQueryIds h (ComputeOrder b))) =
             Weights (MakeTargetAndWeights b)" for h
    using MakeTargetAndWeights_cong [of "ClearQueryIds h (ComputeOrder b)" b]
    by (simp add: ComputeOrder_fields ClearQueryIds_fields)
  have 4: "Targets b4 = Targets (MakeTargetAndWeights b)"
    "Weights b4 = Weights (MakeTargetAndWeights b)" "Pairs b4 = Pairs b"
    using t by (simp_all add: FillPairs_fields [OF fp] MakeTargetAndWeights_fields
        ClearQueryIds_fields ComputeOrder_fields)
  show ?thesis
    using 4 b1 by (simp add: ApplyOrderToMetaColumns_fields ShuffleOrder_fields)
qed

lemma OrderDocuments_set_Weights:
  assumes "OrderDocuments c b = Inr b1" and "rows_consistent b"
  shows "set (Weights b1) = set (Weights (MakeTargetAndWeights b))"
    and "set (Targets b1) = set (Targets (MakeTargetAndWeights b))"
proof -
  have m: "mset (Order b1) = mset [0..<length (Targets b)]"
    using assms by (rule OrderDocuments_Order_mset)
  from assms(2) have
    "length (Weights (MakeTargetAndWeights b)) = length (Targets b)"
    "length (Targets (MakeTargetAndWeights b)) = length (Targets b)"
    by (simp_all add: rows_consistent_def)
  with m have
    "set (ApplyPermutation (Order b1) (Weights (MakeTargetAndWeights b))) =
       set (Weights (MakeTargetAndWeights b))"
    "set (ApplyPermutation (Order b1) (Targets (MakeTargetAndWeights b))) =
       set (Targets (MakeTargetAndWeights b))"
    by (simp_all add: set_ApplyPermutation)
  with OrderDocuments_Targets_Weights [OF assms(1)]
  show "set (Weights b1) = set (Weights (MakeTargetAndWeights b))"
    and "set (Targets b1) = set (Targets (MakeTargetAndWeights b))"
    by auto
qed

subsection \<open>Weight validation\<close>

lemma ValidateWeights_all_zero:
  "\<forall>w \<in> set ws. float_is_zero w \<Longrightarrow> ValidateWeights ws = Inl AllWeightsZero"
  using ValidateWeights_loop_ok [of ws False]
  by (auto simp: ValidateWeights_def float_is_zero_ge_zero)

lemma ValidateWeights_negative:
  assumes "\<exists>w \<in> set ws. float_lt_zero w"
  shows "ValidateWeights ws = Inl NegativeWeight"
proof -
  from assms have "\<exists>w \<in> set ws. \<not> float_ge_zero w"
    by (blast dest: float_lt_zero_not_ge_zero)
  then have "ValidateWeights_loop ws False = Inl NegativeWeight"
    by (rule ValidateWeights_loop_negative)
  then show ?thesis by (simp add: ValidateWeights_def)
qed

lemma ValidateWeights_pass:
  "\<forall>w \<in> set ws. float_ge_zero w \<Longrightarrow> \<exists>w \<in> set ws. \<not> float_is_zero w \<Longrightarrow>
   ValidateWeights ws = Inr ()"
  using ValidateWeights_loop_ok [of ws False]
  by (auto simp: ValidateWeights_def)

lemma Finish_validation:
  assumes "OrderDocuments c b = Inr b1" and "CompileFeatures c b1 = Inr b2"
  shows "Finish c b = Validate b2" "Weights b2 = Weights b1" "Targets b2 = Targets b1"
    "Pairs b2 = Pairs b1"
  using assms CompileFeatures_frame [OF assms(2)] by (simp_all add: Finish_def frame_def)

text \<open>
  C5. Let the weights be those the target conversion leaves (the builder's own weights when
  no conversion is attached), and let \<^verbatim>\<open>Finish\<close> reach the weight validation. If every
  weight is zero, \<^verbatim>\<open>Finish\<close> fails with the all-weights-zero error; if some weight is
  negative, it fails with the negative-weight error; if every weight is non-negative and
  some weight is non-zero, the validation passes and \<^verbatim>\<open>Finish\<close> raises neither error.
\<close>

theorem weights_are_validated:
  assumes "rows_consistent b"
    and "OrderDocuments c b = Inr b1" and "CompileFeatures c b1 = Inr b2"
  shows "((\<forall>w \<in> set (Weights (MakeTargetAndWeights b)). float_is_zero w) \<longrightarrow>
            Finish c b = Inl AllWeightsZero) \<and>
         ((\<exists>w \<in> set (Weights (MakeTargetAndWeights b)). float_lt_zero w) \<longrightarrow>
            Finish c b = Inl NegativeWeight) \<and>
         ((\<forall>w \<in> set (Weights (MakeTargetAndWeights b)). float_ge_zero w) \<and>
          (\<exists>w \<in> set (Weights (MakeTargetAndWeights b)). \<not> float_is_zero w) \<longrightarrow>
            ValidateWeights (Weights b2) = Inr () \<and>
            Finish c b \<noteq> Inl NegativeWeight \<and> Finish c b \<noteq> Inl AllWeightsZero) \<and>
         error_message AllWeightsZero = ''Error: all weights are zero'' \<and>
         error_message NegativeWeight = ''Weights can't be negative''"
proof -
  note fv = Finish_validation [OF assms(2,3)]
  have s: "set (Weights b2) = set (Weights (MakeTargetAndWeights b))"
    using OrderDocuments_set_Weights(1) [OF assms(2,1)] fv(2) by simp
  have 1: "Finish c b = Inl AllWeightsZero"
    if "\<forall>w \<in> set (Weights (MakeTargetAndWeights b)). float_is_zero w"
    using that ValidateWeights_all_zero [of "Weights b2"] s
    by (simp add: fv(1) Validate_def)
  have 2: "Finish c b = Inl NegativeWeight"
    if "\<exists>w \<in> set (Weights (MakeTargetAndWeights b)). float_lt_zero w"
    using that ValidateWeights_negative [of "Weights b2"] s
    by (simp add: fv(1) Validate_def)
  have 3: "ValidateWeights (Weights b2) = Inr () \<and>
           Finish c b \<noteq> Inl NegativeWeight \<and> Finish c b \<noteq> Inl AllWeightsZero"
    if "\<forall>w \<in> set (Weights (MakeTargetAndWeights b)). float_ge_zero w"
      and "\<exists>w \<in> set (Weights (MakeTargetAndWeights b)). \<not> float_is_zero w"
  proof -
    have "ValidateWeights (Weights b2) = Inr ()"
      using that s by (intro ValidateWeights_pass) simp_all
    then show ?thesis by (simp add: fv(1) Validate_def Let_def)
  qed
  from 1 2 3 show ?thesis by simp
qed


theorem weights_are_validated_witness:
  "Finish sample_collaborators (sample_builder\<lparr>Weights := [0, 0, 0]\<rparr>) = Inl AllWeightsZero \<and>
   Finish sample_collaborators (sample_builder\<lparr>Weights := [0xBF800000, 0x40000000, 0x40400000]\<rparr>) =
     Inl NegativeWeight \<and>
   ValidateWeights (Weights (projr (CompileFeatures sample_collaborators
     (projr (OrderDocuments sample_collaborators sample_builder))))) = Inr () \<and>
   \<not> isl (Finish sample_collaborators sample_builder)"
proof -
  let ?c = sample_collaborators
  let ?z = "sample_builder\<lparr>Weights := [0, 0, 0]\<rparr>"
  let ?n = "sample_builder\<lparr>Weights := [0xBF800000, 0x40000000, 0x40400000]\<rparr>"
  let ?p = sample_builder
  have rc: "rows_consistent ?z" "rows_consistent ?n" "rows_consistent ?p"
    by (simp_all add: rows_consistent_def MakeTargetAndWeights_def sample_builder_def)
  have "\<not> isl (OrderDocuments ?c ?z)" "\<not> isl (OrderDocuments ?c ?n)"
    "\<not> isl (OrderDocuments ?c ?p)"
    by code_simp+
  then have od: "OrderDocuments ?c ?z = Inr (projr (OrderDocuments ?c ?z))"
    "OrderDocuments ?c ?n = Inr (projr (OrderDocuments ?c ?n))"
    "OrderDocuments ?c ?p = Inr (projr (OrderDocuments ?c ?p))"
    by simp_all
  have "\<not> isl (CompileFeatures ?c (projr (OrderDocuments ?c ?z)))"
    "\<not> isl (CompileFeatures ?c (projr (OrderDocuments ?c ?n)))"
    "\<not> isl (CompileFeatures ?c (projr (OrderDocuments ?c ?p)))"
    by code_simp+
  then have cf:
    "CompileFeatures ?c (projr (OrderDocuments ?c ?z)) =
       Inr (projr (CompileFeatures ?c (projr (OrderDocuments ?c ?z))))"
    "CompileFeatures ?c (projr (OrderDocuments ?c ?n)) =
       Inr (projr (CompileFeatures ?c (projr (OrderDocuments ?c ?n))))"
    "CompileFeatures ?c (projr (OrderDocuments ?c ?p)) =
       Inr (projr (CompileFeatures ?c (projr (OrderDocuments ?c ?p))))"
    by simp_all
  have z: "\<forall>w \<in> set (Weights (MakeTargetAndWeights ?z)). float_is_zero w"
    by (simp add: MakeTargetAndWeights_def sample_builder_def float_is_zero_def float_magnitude_def)
  have n: "\<exists>w \<in> set (Weights (MakeTargetAndWeights ?n)). float_lt_zero w"
    by (simp add: MakeTargetAndWeights_def sample_builder_def float_lt_zero_def float_is_zero_def
        float_is_nan_def float_sign_def float_magnitude_def)
  have p: "(\<forall>w \<in> set (Weights (MakeTargetAndWeights ?p)). float_ge_zero w) \<and>
           (\<exists>w \<in> set (Weights (MakeTargetAndWeights ?p)). \<not> float_is_zero w)"
    by (simp add: MakeTargetAndWeights_def sample_builder_def float_ge_zero_def float_is_zero_def
        float_is_nan_def float_sign_def float_magnitude_def)
  have 1: "Finish ?c ?z = Inl AllWeightsZero"
    using weights_are_validated [OF rc(1) od(1) cf(1)] z by blast
  have 2: "Finish ?c ?n = Inl NegativeWeight"
    using weights_are_validated [OF rc(2) od(2) cf(2)] n by blast
  have 3: "ValidateWeights (Weights (projr (CompileFeatures ?c (projr (OrderDocuments ?c ?p))))) = Inr ()"
    using weights_are_validated [OF rc(3) od(3) cf(3)] p by blast
  have 4: "\<not> isl (Finish ?c ?p)" by code_simp
  from 1 2 3 4 show ?thesis by (intro conjI)
qed

subsection \<open>The constant-target check\<close>

lemma IsConstant_loop_iff: "IsConstant_loop eq v0 xs \<longleftrightarrow> (\<forall>x \<in> set xs. eq x v0)"
  by (induction xs) auto

lemma IsConstant_iff:
  "IsConstant eq xs \<longleftrightarrow> (case xs of [] \<Rightarrow> True | v0 # _ \<Rightarrow> \<forall>x \<in> set xs. eq x v0)"
  by (simp add: IsConstant_def IsConstant_loop_iff split: list.splits)

lemma IsConstant_pairs_replicate:
  "\<not> float_is_nan (Weight p) \<Longrightarrow> IsConstant TPair_eq (replicate n p)"
  by (cases n) (auto simp: IsConstant_iff TPair_eq_def float_eq_def)

lemma Validate_constant_target_no_pairs:
  "ValidateWeights (Weights b) = Inr () \<Longrightarrow> IsConstant float_eq (Targets b) \<Longrightarrow>
   Pairs b = [] \<Longrightarrow> Validate b = Inl ConstantTargetNoPairs"
  by (simp add: Validate_def IsConstant_iff)

lemma Validate_constant_target_equal_pairs:
  "ValidateWeights (Weights b) = Inr () \<Longrightarrow> IsConstant float_eq (Targets b) \<Longrightarrow>
   Pairs b = replicate n p \<Longrightarrow> \<not> float_is_nan (Weight p) \<Longrightarrow>
   Validate b = Inl ConstantTargetNoPairs"
  by (simp add: Validate_def IsConstant_pairs_replicate)

text \<open>
  C1. The claim is that constant targets accompanied by a non-empty pair list do not raise
  the constant-target error. The check of \<^verbatim>\<open>Finish\<close> is \<^verbatim>\<open>IsConstant(Pairs)\<close>, which holds
  for an empty pair list but also for a single pair: with the constant targets 1.0, 1.0,
  1.0, the group ids 7, 7, 9 and the one pair (0, 1, 1.0), \<^verbatim>\<open>Finish\<close> fails with the
  error whose message says that there are no pairs.
\<close>

theorem constant_target_single_pair_rejected:
  "IsConstant float_eq
     (Targets (sample_builder\<lparr>Targets := [0x3F800000, 0x3F800000, 0x3F800000],
        QueryIds := [7, 7, 9],
        Pairs := [\<lparr>WinnerId = 0, LoserId = 1, Weight = 0x3F800000\<rparr>]\<rparr>)) \<and>
   Pairs (sample_builder\<lparr>Targets := [0x3F800000, 0x3F800000, 0x3F800000],
        QueryIds := [7, 7, 9],
        Pairs := [\<lparr>WinnerId = 0, LoserId = 1, Weight = 0x3F800000\<rparr>]\<rparr>) \<noteq> [] \<and>
   Finish sample_collaborators
     (sample_builder\<lparr>Targets := [0x3F800000, 0x3F800000, 0x3F800000],
        QueryIds := [7, 7, 9],
        Pairs := [\<lparr>WinnerId = 0, LoserId = 1, Weight = 0x3F800000\<rparr>]\<rparr>) =
   Inl ConstantTargetNoPairs \<and>
   error_message ConstantTargetNoPairs =
     ''Error: input target is constant and there are no pairs. No way you could learn on such dataset''"
proof -
  let ?b = "sample_builder\<lparr>Targets := [0x3F800000, 0x3F800000, 0x3F800000],
        QueryIds := [7, 7, 9],
        Pairs := [\<lparr>WinnerId = 0, LoserId = 1, Weight = 0x3F800000\<rparr>]\<rparr>"
  have 1: "IsConstant float_eq (Targets ?b)"
    by (simp add: IsConstant_iff float_eq_def float_is_nan_def float_magnitude_def)
  have 2: "Pairs ?b \<noteq> []" by simp
  have "map_sum id Order (Finish sample_collaborators ?b) = Inl ConstantTargetNoPairs"
    by code_simp
  then have 3: "Finish sample_collaborators ?b = Inl ConstantTargetNoPairs"
    by (cases "Finish sample_collaborators ?b") simp_all
  from 1 2 3 show ?thesis by simp
qed

subsection \<open>The border cache\<close>

lemma CompileCategorical_FloatBorders:
  "CompileCategorical c b i n = Inr (b', col, bins) \<Longrightarrow>
   FloatBorders (FeaturesManager b') = FloatBorders (FeaturesManager b)"
  by (auto simp: CompileCategorical_def FreeBlob_def Let_def
      split: sum.splits prod.splits if_splits)

lemma CompileBinarizedFloat_FloatBorders:
  "CompileBinarizedFloat c b i n = Inr (b', col, bins) \<Longrightarrow>
   FloatBorders (FeaturesManager b') = FloatBorders (FeaturesManager b)"
  by (auto simp: CompileBinarizedFloat_def FreeBlob_def Let_def SetOrCheckNanMode_def
      split: sum.splits prod.splits if_splits option.splits)

lemma CompileFloat_FloatBorders:
  "CompileFloat c b i n = Inr (b', col, bins) \<Longrightarrow>
   FloatBorders (FeaturesManager b') = FloatBorders (FeaturesManager b)"
  by (auto simp: CompileFloat_def FreeBlob_def Let_def GetOrComputeNanMode_def
      split: sum.splits prod.splits if_splits option.splits)

lemma FeatureTask_FloatBorders:
  "FeatureTask c b i = Inr (b', n, col, bins) \<Longrightarrow>
   FloatBorders (FeaturesManager b') = FloatBorders (FeaturesManager b)"
  by (auto simp: FeatureTask_def Let_def
      split: sum.splits prod.splits if_splits EFeatureValuesType.splits
      dest: CompileCategorical_FloatBorders CompileBinarizedFloat_FloatBorders
        CompileFloat_FloatBorders)

lemma ParallelFor_FloatBorders:
  "ParallelFor c b fids = Inr (b', names, cols) \<Longrightarrow>
   FloatBorders (FeaturesManager b') = FloatBorders (FeaturesManager b)"
proof (induction fids arbitrary: b names cols)
  case Nil
  then show ?case by simp
next
  case (Cons i fids)
  from Cons.prems obtain b1 n col bins names' cols' where
    t: "FeatureTask c b i = Inr (b1, n, col, bins)" and
    r: "ParallelFor c b1 fids = Inr (b', names', cols')"
    by (rule ParallelFor_Cons_Inr)
  from FeatureTask_FloatBorders [OF t] Cons.IH [OF r] show ?case by simp
qed

lemma ReconcileFeature_fields:
  "FeatureTypes (ReconcileFeature b k col) = FeatureTypes b"
  "Borders (ReconcileFeature b k col) = Borders b"
  "FeatureBlobs (ReconcileFeature b k col) = FeatureBlobs b"
  "Features (ReconcileFeature b k col) = Features b @ (case col of None \<Rightarrow> [] | Some x \<Rightarrow> [x])"
  by (simp_all add: ReconcileFeature_def Let_def split: option.splits)

lemma ReconcileFeature_FloatBorders:
  "FloatBorders (FeaturesManager (ReconcileFeature b k col)) i =
     (case FloatBorders (FeaturesManager b) i of
        Some recorded \<Rightarrow> Some recorded
      | None \<Rightarrow>
          if i = k \<and> FeatureTypes b ! k \<noteq> Categorical \<and> col \<noteq> None
          then Some (Borders b ! k) else None)"
  by (auto simp: ReconcileFeature_def Let_def HasFloatFeatureBorders_def
      SetFloatFeatureBordersForDataProviderId_def split: option.splits)

lemma Reconcile_fields:
  "FeatureTypes (Reconcile b k cols) = FeatureTypes b"
  "Borders (Reconcile b k cols) = Borders b"
  "FeatureBlobs (Reconcile b k cols) = FeatureBlobs b"
  by (induction cols arbitrary: b k) (simp_all add: ReconcileFeature_fields)

lemma Reconcile_FloatBorders:
  "FloatBorders (FeaturesManager (Reconcile b k cols)) i =
     (case FloatBorders (FeaturesManager b) i of
        Some recorded \<Rightarrow> Some recorded
      | None \<Rightarrow>
          if k \<le> i \<and> i < k + length cols \<and> FeatureTypes b ! i \<noteq> Categorical \<and>
             cols ! (i - k) \<noteq> None
          then Some (Borders b ! i) else None)"
proof (induction cols arbitrary: b k)
  case Nil
  then show ?case by (simp split: option.splits)
next
  case (Cons col cols)
  have step: "FloatBorders (FeaturesManager (Reconcile b k (col # cols))) i =
     (case FloatBorders (FeaturesManager (ReconcileFeature b k col)) i of
        Some recorded \<Rightarrow> Some recorded
      | None \<Rightarrow>
          if Suc k \<le> i \<and> i < Suc k + length cols \<and> FeatureTypes b ! i \<noteq> Categorical \<and>
             cols ! (i - Suc k) \<noteq> None
          then Some (Borders b ! i) else None)"
    by (auto simp: Cons.IH ReconcileFeature_fields cong: option.case_cong)
  show ?case
  proof (cases "FloatBorders (FeaturesManager b) i")
    case (Some recorded)
    then show ?thesis
      unfolding step by (simp add: ReconcileFeature_FloatBorders)
  next
    case None
    show ?thesis
    proof (cases "i = k")
      case True
      with None show ?thesis
        unfolding step by (simp add: ReconcileFeature_FloatBorders)
    next
      case False
      have "(col # cols) ! (i - k) = cols ! (i - Suc k)" if "k \<le> i"
      proof -
        from that False obtain d where "i - k = Suc d" "i - Suc k = d"
          by (metis Suc_diff_Suc le_neq_implies_less)
        then show ?thesis by simp
      qed
      with None False show ?thesis
        unfolding step by (auto simp: ReconcileFeature_FloatBorders)
    qed
  qed
qed

lemma Reconcile_keeps_recorded:
  "FloatBorders (FeaturesManager b) i = Some recorded \<Longrightarrow>
   FloatBorders (FeaturesManager (Reconcile b k cols)) i = Some recorded"
  by (simp add: Reconcile_FloatBorders)

lemma OrderDocuments_FeaturesManager:
  assumes "OrderDocuments c b = Inr b1"
  shows "FeaturesManager b1 = FeaturesManager b" "Features b1 = Features b"
    "FeatureBlobs b1 = FeatureBlobs b" "FeatureTypes b1 = FeatureTypes b"
    "Borders b1 = Borders b" "IsTest b1 = IsTest b"
    "CatFeaturesPerfectHashHelper b1 = CatFeaturesPerfectHashHelper b"
proof -
  let ?h = "HasQueryIds (QueryIds b)"
  let ?b3 = "MakeTargetAndWeights (ClearQueryIds ?h (ComputeOrder b))"
  from assms obtain b4 where
    fp: "FillPairs c ?h ?b3 = Inr b4" and
    b1: "b1 = (if ShuffleFlag (ShuffleOrder c ?h b4) \<or> Timestamp (ShuffleOrder c ?h b4) \<noteq> []
           then ApplyOrderToMetaColumns (ShuffleOrder c ?h b4)
           else ShuffleOrder c ?h b4)"
    by (rule OrderDocuments_Inr)
  have 3: "FeaturesManager ?b3 = FeaturesManager b \<and> Features ?b3 = Features b \<and>
      FeatureBlobs ?b3 = FeatureBlobs b \<and> FeatureTypes ?b3 = FeatureTypes b \<and>
      Borders ?b3 = Borders b \<and> IsTest ?b3 = IsTest b \<and>
      CatFeaturesPerfectHashHelper ?b3 = CatFeaturesPerfectHashHelper b"
    by (simp add: MakeTargetAndWeights_def ClearQueryIds_def ComputeOrder_def Let_def
        split: option.splits prod.splits)
  have 4: "FeaturesManager b4 = FeaturesManager ?b3 \<and> Features b4 = Features ?b3 \<and>
      FeatureBlobs b4 = FeatureBlobs ?b3 \<and> FeatureTypes b4 = FeatureTypes ?b3 \<and>
      Borders b4 = Borders ?b3 \<and> IsTest b4 = IsTest ?b3 \<and>
      CatFeaturesPerfectHashHelper b4 = CatFeaturesPerfectHashHelper ?b3"
    using FillPairs_Inr [OF fp] by (simp split: if_splits)
  have 1: "FeaturesManager b1 = FeaturesManager b4 \<and> Features b1 = Features b4 \<and>
      FeatureBlobs b1 = FeatureBlobs b4 \<and> FeatureTypes b1 = FeatureTypes b4 \<and>
      Borders b1 = Borders b4 \<and> IsTest b1 = IsTest b4 \<and>
      CatFeaturesPerfectHashHelper b1 = CatFeaturesPerfectHashHelper b4"
    unfolding b1 by (simp add: ApplyOrderToMetaColumns_def ShuffleOrder_def Let_def)
  from 1 4 3 show "FeaturesManager b1 = FeaturesManager b" "Features b1 = Features b"
    "FeatureBlobs b1 = FeatureBlobs b" "FeatureTypes b1 = FeatureTypes b"
    "Borders b1 = Borders b" "IsTest b1 = IsTest b"
    "CatFeaturesPerfectHashHelper b1 = CatFeaturesPerfectHashHelper b"
    by simp_all
qed

lemma CompileFeatures_keeps_recorded:
  assumes "CompileFeatures c b = Inr b'"
    and "FloatBorders (FeaturesManager b) i = Some recorded"
  shows "FloatBorders (FeaturesManager b') i = Some recorded"
proof -
  from assms(1) obtain b0 names cols where
    pf: "ParallelFor c b [0..<length (FeatureBlobs b)] = Inr (b0, names, cols)" and
    b': "b' = (if \<not> IsTest (Reconcile b0 0 cols) then SetTargetBorders c (Reconcile b0 0 cols)
           else Reconcile b0 0 cols)\<lparr>FeatureNames := names\<rparr>"
    by (rule CompileFeatures_Inr)
  have "FloatBorders (FeaturesManager b0) i = Some recorded"
    using ParallelFor_FloatBorders [OF pf] assms(2) by simp
  then have "FloatBorders (FeaturesManager (Reconcile b0 0 cols)) i = Some recorded"
    by (rule Reconcile_keeps_recorded)
  then show ?thesis unfolding b' by (simp add: SetTargetBorders_def)
qed

text \<open>
  C9. The reconciliation loop registers borders in the shared store only for a feature
  that has none recorded there: an entry of the border cache that exists before the loop
  is the entry after it, and an entry that is missing becomes the builder's borders of the
  feature exactly when the feature is not categorical and has a compiled column. Borders
  recorded before \<^verbatim>\<open>Finish\<close> are still recorded, unchanged, after it.
\<close>

theorem recorded_borders_never_overwritten:
  "FloatBorders (FeaturesManager (Reconcile b0 0 cols)) i =
     (case FloatBorders (FeaturesManager b0) i of
        Some recorded \<Rightarrow> Some recorded
      | None \<Rightarrow>
          if i < length cols \<and> FeatureTypes b0 ! i \<noteq> Categorical \<and> cols ! i \<noteq> None
          then Some (Borders b0 ! i) else None) \<and>
   (Finish c b = Inr r \<longrightarrow> FloatBorders (FeaturesManager b) i = Some recorded \<longrightarrow>
      FloatBorders (FeaturesManager r) i = Some recorded)"
proof (intro conjI impI)
  show "FloatBorders (FeaturesManager (Reconcile b0 0 cols)) i =
     (case FloatBorders (FeaturesManager b0) i of
        Some recorded \<Rightarrow> Some recorded
      | None \<Rightarrow>
          if i < length cols \<and> FeatureTypes b0 ! i \<noteq> Categorical \<and> cols ! i \<noteq> None
          then Some (Borders b0 ! i) else None)"
    by (auto simp: Reconcile_FloatBorders cong: option.case_cong)
next
  assume f: "Finish c b = Inr r" and rec: "FloatBorders (FeaturesManager b) i = Some recorded"
  from f obtain b1 b2 where
    od: "OrderDocuments c b = Inr b1" and cf: "CompileFeatures c b1 = Inr b2" and
    v: "Validate b2 = Inr r"
    by (rule Finish_Inr)
  have "FloatBorders (FeaturesManager b1) i = Some recorded"
    using rec by (simp add: OrderDocuments_FeaturesManager [OF od])
  with cf have "FloatBorders (FeaturesManager b2) i = Some recorded"
    by (rule CompileFeatures_keeps_recorded)
  then show "FloatBorders (FeaturesManager r) i = Some recorded"
    using Validate_Inr [OF v] by simp
qed

theorem recorded_borders_never_overwritten_witness:
  "FloatBorders (FeaturesManager (sample_builder\<lparr>FeaturesManager :=
      \<lparr>FloatBorders = [1 \<mapsto> [0x3FC00000]], FloatNanModes = Map.empty, TargetBorders = []\<rparr>\<rparr>)) 1 =
     Some [0x3FC00000] \<and>
   FloatBorders (FeaturesManager (projr (Finish sample_collaborators
     (sample_builder\<lparr>FeaturesManager :=
        \<lparr>FloatBorders = [1 \<mapsto> [0x3FC00000]], FloatNanModes = Map.empty,
           TargetBorders = []\<rparr>\<rparr>)))) 1 =
     Some [0x3FC00000] \<and>
   FloatBorders (FeaturesManager (projr (Finish sample_collaborators sample_builder))) 1 =
     Some [0x3F800000, 0x40000000]"
proof -
  let ?b = "sample_builder\<lparr>FeaturesManager :=
      \<lparr>FloatBorders = [1 \<mapsto> [0x3FC00000]], FloatNanModes = Map.empty, TargetBorders = []\<rparr>\<rparr>"
  let ?F = "Finish sample_collaborators ?b"
  have rec: "FloatBorders (FeaturesManager ?b) 1 = Some [0x3FC00000]" by simp
  have "\<not> isl ?F" by code_simp
  then have r: "?F = Inr (projr ?F)" by simp
  have 1: "FloatBorders (FeaturesManager (projr ?F)) 1 = Some [0x3FC00000]"
    using recorded_borders_never_overwritten
      [of ?b "[]" 1 sample_collaborators ?b "projr ?F" "[0x3FC00000]"] r rec
    by blast
  have 2: "FloatBorders (FeaturesManager (projr (Finish sample_collaborators sample_builder))) 1 =
     Some [0x3F800000, 0x40000000]"
    by code_simp
  from rec 1 2 show ?thesis by (intro conjI)
qed

subsection \<open>Blobs and columns\<close>

lemma CompileCategorical_blob:
  "CompileCategorical c b i n = Inr (b', col, bins) \<Longrightarrow>
   FeatureBlobs b' = (FeatureBlobs b)[i := []] \<and> (\<forall>x. col = Some x \<longrightarrow> GetId x = i)"
  by (auto simp: CompileCategorical_def FreeBlob_def Let_def
      split: sum.splits prod.splits if_splits)

lemma CompileBinarizedFloat_blob:
  "CompileBinarizedFloat c b i n = Inr (b', col, bins) \<Longrightarrow>
   (col = None \<and> FeatureBlobs b' = FeatureBlobs b) \<or>
   (\<exists>x. col = Some x \<and> GetId x = i \<and> FeatureBlobs b' = (FeatureBlobs b)[i := []])"
  by (auto simp: CompileBinarizedFloat_def FreeBlob_def Let_def
      split: sum.splits prod.splits if_splits)

lemma CompileFloat_blob:
  "CompileFloat c b i n = Inr (b', col, bins) \<Longrightarrow>
   (col = None \<and> FeatureBlobs b' = FeatureBlobs b) \<or>
   (\<exists>x. col = Some x \<and> GetId x = i \<and> FeatureBlobs b' = (FeatureBlobs b)[i := []])"
  by (auto simp: CompileFloat_def FreeBlob_def Let_def
      split: sum.splits prod.splits if_splits)

lemma FeatureTask_blob:
  assumes "FeatureTask c b i = Inr (b', n, col, bins)"
  shows "(FeatureBlobs b' = FeatureBlobs b \<or> FeatureBlobs b' = (FeatureBlobs b)[i := []]) \<and>
         (\<forall>x. col = Some x \<longrightarrow> GetId x = i \<and> FeatureBlobs b' = (FeatureBlobs b)[i := []])"
proof (cases "length (FeatureBlobs b ! i) = 0")
  case True
  with assms show ?thesis by (simp add: FeatureTask_def)
next
  case False
  show ?thesis
  proof (cases "FeatureTypes b ! i")
    case Float
    with assms False have "CompileFloat c b i (GetFeatureName c i) = Inr (b', col, bins)"
      by (auto simp: FeatureTask_def Let_def split: sum.splits)
    from CompileFloat_blob [OF this] show ?thesis by auto
  next
    case Categorical
    with assms False have "CompileCategorical c b i (GetFeatureName c i) = Inr (b', col, bins)"
      by (auto simp: FeatureTask_def Let_def split: sum.splits)
    from CompileCategorical_blob [OF this] show ?thesis by auto
  next
    case BinarizedFloat
    with assms False have "CompileBinarizedFloat c b i (GetFeatureName c i) = Inr (b', col, bins)"
      by (auto simp: FeatureTask_def Let_def split: sum.splits)
    from CompileBinarizedFloat_blob [OF this] show ?thesis by auto
  qed
qed

lemma released_stays_released:
  "bs' = bs \<or> bs' = bs[i := []] \<Longrightarrow> bs ! j = [] \<Longrightarrow> bs' ! j = ([] :: 'a list)"
  by (cases "i < length bs") (auto simp: nth_list_update list_update_beyond)

lemma ParallelFor_blobs:
  "ParallelFor c b fids = Inr (b', names, cols) \<Longrightarrow>
   (\<forall>j. FeatureBlobs b ! j = [] \<longrightarrow> FeatureBlobs b' ! j = []) \<and>
   (\<forall>x. Some x \<in> set cols \<longrightarrow>
      GetId x \<in> set fids \<and>
      (GetId x < length (FeatureBlobs b) \<longrightarrow> FeatureBlobs b' ! GetId x = []))"
proof (induction fids arbitrary: b names cols)
  case Nil
  then show ?case by simp
next
  case (Cons i fids)
  from Cons.prems obtain b1 n col bins names' cols' where
    t: "FeatureTask c b i = Inr (b1, n, col, bins)" and
    r: "ParallelFor c b1 fids = Inr (b', names', cols')" and
    cols: "cols = col # cols'"
    by (rule ParallelFor_Cons_Inr)
  note tb = FeatureTask_blob [OF t]
  note ih = Cons.IH [OF r]
  have len: "length (FeatureBlobs b1) = length (FeatureBlobs b)"
    using FeatureTask_frame [OF t] by (simp add: frame_def)
  have keep: "FeatureBlobs b1 ! j = []" if "FeatureBlobs b ! j = []" for j
    using tb that by (blast intro: released_stays_released)
  have 1: "\<forall>j. FeatureBlobs b ! j = [] \<longrightarrow> FeatureBlobs b' ! j = []"
    using keep ih by blast
  have 2: "GetId x \<in> set (i # fids) \<and>
      (GetId x < length (FeatureBlobs b) \<longrightarrow> FeatureBlobs b' ! GetId x = [])"
    if "Some x \<in> set cols" for x
  proof (cases "col = Some x")
    case True
    with tb have id: "GetId x = i" and fb: "FeatureBlobs b1 = (FeatureBlobs b)[i := []]"
      by simp_all
    have "FeatureBlobs b1 ! i = []" if "i < length (FeatureBlobs b)"
      using that fb by simp
    with ih have "FeatureBlobs b' ! i = []" if "i < length (FeatureBlobs b)"
      using that by blast
    with id show ?thesis by simp
  next
    case False
    with that cols have "Some x \<in> set cols'" by auto
    with ih len show ?thesis by auto
  qed
  from 1 2 show ?case by blast
qed

lemma Reconcile_Features:
  "set (Features (Reconcile b k cols)) = set (Features b) \<union> {x. Some x \<in> set cols}"
proof (induction cols arbitrary: b k)
  case Nil
  then show ?case by simp
next
  case (Cons col cols)
  show ?case
    by (cases col) (auto simp: Cons.IH ReconcileFeature_fields)
qed

lemma FeatureTask_Features:
  "FeatureTask c b i = Inr (b', n, col, bins) \<Longrightarrow> Features b' = Features b"
  by (auto simp: FeatureTask_def CompileCategorical_def CompileBinarizedFloat_def CompileFloat_def
      FreeBlob_def Let_def
      split: sum.splits prod.splits if_splits EFeatureValuesType.splits)

lemma ParallelFor_Features:
  "ParallelFor c b fids = Inr (b', names, cols) \<Longrightarrow> Features b' = Features b"
proof (induction fids arbitrary: b names cols)
  case Nil
  then show ?case by simp
next
  case (Cons i fids)
  from Cons.prems obtain b1 n col bins names' cols' where
    t: "FeatureTask c b i = Inr (b1, n, col, bins)" and
    r: "ParallelFor c b1 fids = Inr (b', names', cols')"
    by (rule ParallelFor_Cons_Inr)
  from FeatureTask_Features [OF t] Cons.IH [OF r] show ?case by simp
qed

lemma CompileFeatures_released:
  assumes "CompileFeatures c b = Inr b'" and "x \<in> set (Features b')"
  shows "x \<in> set (Features b) \<or>
         (GetId x < length (FeatureBlobs b') \<and> FeatureBlobs b' ! GetId x = [])"
proof -
  from assms(1) obtain b0 names cols where
    pf: "ParallelFor c b [0..<length (FeatureBlobs b)] = Inr (b0, names, cols)" and
    b': "b' = (if \<not> IsTest (Reconcile b0 0 cols) then SetTargetBorders c (Reconcile b0 0 cols)
           else Reconcile b0 0 cols)\<lparr>FeatureNames := names\<rparr>"
    by (rule CompileFeatures_Inr)
  have f: "Features b' = Features (Reconcile b0 0 cols)"
    and fb: "FeatureBlobs b' = FeatureBlobs b0"
    unfolding b' by (simp_all add: SetTargetBorders_def Reconcile_fields)
  have len: "length (FeatureBlobs b0) = length (FeatureBlobs b)"
    using ParallelFor_frame [OF pf] by (simp add: frame_def)
  from assms(2) have "x \<in> set (Features b) \<or> Some x \<in> set cols"
    unfolding f Reconcile_Features ParallelFor_Features [OF pf] by simp
  then show ?thesis
  proof
    assume "x \<in> set (Features b)"
    then show ?thesis by simp
  next
    assume "Some x \<in> set cols"
    with ParallelFor_blobs [OF pf] have "GetId x < length (FeatureBlobs b)"
      and "FeatureBlobs b0 ! GetId x = []"
      by auto
    with fb len show ?thesis by simp
  qed
qed

text \<open>
  C8. Whenever the task of a feature produces a compiled column, it leaves the feature's
  raw blob empty, and the column carries the feature's index. After a successful
  \<^verbatim>\<open>Finish\<close>, every column added to the dataset belongs to a feature whose raw blob is
  empty: no feature is held both as a raw blob and as a compiled column.
\<close>

theorem blob_released_once_compiled:
  "(FeatureTask c b i = Inr (b', n, Some col, bins) \<longrightarrow>
      GetId col = i \<and> FeatureBlobs b' = (FeatureBlobs b)[i := []]) \<and>
   (Finish c b0 = Inr r \<longrightarrow>
      (\<forall>x \<in> set (Features r).
         x \<in> set (Features b0) \<or>
         (GetId x < length (FeatureBlobs r) \<and> FeatureBlobs r ! GetId x = [])))"
proof (intro conjI impI ballI)
  assume "FeatureTask c b i = Inr (b', n, Some col, bins)"
  from FeatureTask_blob [OF this]
  show "GetId col = i" and "FeatureBlobs b' = (FeatureBlobs b)[i := []]"
    by simp_all
next
  fix x
  assume f: "Finish c b0 = Inr r" and x: "x \<in> set (Features r)"
  from f obtain b1 b2 where
    od: "OrderDocuments c b0 = Inr b1" and cf: "CompileFeatures c b1 = Inr b2" and
    v: "Validate b2 = Inr r"
    by (rule Finish_Inr)
  have r: "Features r = Features b2" "FeatureBlobs r = FeatureBlobs b2"
    using Validate_Inr [OF v] by simp_all
  from x CompileFeatures_released [OF cf, of x]
  show "x \<in> set (Features b0) \<or>
        (GetId x < length (FeatureBlobs r) \<and> FeatureBlobs r ! GetId x = [])"
    by (simp add: r OrderDocuments_FeaturesManager [OF od])
qed

theorem blob_released_once_compiled_witness:
  "map GetId (Features (projr (Finish sample_collaborators sample_builder))) = [1] \<and>
   FeatureBlobs (projr (Finish sample_collaborators sample_builder)) ! 1 = [] \<and>
   Features sample_builder = []"
proof -
  let ?F = "Finish sample_collaborators sample_builder"
  have "\<not> isl ?F" by code_simp
  then have r: "?F = Inr (projr ?F)" by simp
  have ids: "map GetId (Features (projr ?F)) = [1]" by code_simp
  have e: "Features sample_builder = []" by (simp add: sample_builder_def)
  from ids obtain x where x: "Features (projr ?F) = [x]" "GetId x = 1"
    by auto
  from blob_released_once_compiled
    [of sample_collaborators sample_builder 0 sample_builder "[]" x "None"
      sample_builder "projr ?F"] r x e
  have "FeatureBlobs (projr ?F) ! 1 = []" by simp
  with ids e show ?thesis by simp
qed

subsection \<open>Each feature is compiled from its own data\<close>

lemma TaskColumn_cong:
  assumes "feature_view b' j = feature_view b j"
  shows "TaskColumn c b' j = TaskColumn c b j"
proof -
  from assms have eqs:
    "FeatureBlobs b' ! j = FeatureBlobs b ! j" "FeatureTypes b' ! j = FeatureTypes b ! j"
    "Borders b' ! j = Borders b ! j" "NanModes b' ! j = NanModes b ! j"
    "(j < length (Borders b')) = (j < length (Borders b))"
    "(j < length (NanModes b')) = (j < length (NanModes b))"
    "Order b' = Order b" "IsTest b' = IsTest b"
    "CatFeaturesPerfectHashHelper b' j = CatFeaturesPerfectHashHelper b j"
    "FloatNanModes (FeaturesManager b') j = FloatNanModes (FeaturesManager b) j"
    "FloatBorders (FeaturesManager b') j = FloatBorders (FeaturesManager b) j"
    by (simp_all add: feature_view_def)
  show ?thesis
  proof (cases "FeatureTypes b ! j")
    case Float
    then show ?thesis
      using eqs
      by (simp add: TaskColumn_def FeatureTask_def CompileFloat_def GetOrComputeNanMode_def
          HasFloatFeatureBorders_def GetFloatFeatureBorders_def Let_def
          split: option.splits)
  next
    case Categorical
    then show ?thesis
      using eqs
      by (auto simp: TaskColumn_def FeatureTask_def CompileCategorical_def
          UpdatePerfectHashAndBinarize_def GetUniqueValues_def Let_def
          split: sum.splits prod.splits)
  next
    case BinarizedFloat
    then show ?thesis
      using eqs
      by (simp add: TaskColumn_def FeatureTask_def CompileBinarizedFloat_def
          SetOrCheckNanMode_def Let_def
          split: sum.splits option.splits)
  qed
qed

lemma CompileCategorical_view:
  "CompileCategorical c b i n = Inr (b', col, bins) \<Longrightarrow> i \<noteq> j \<Longrightarrow>
   feature_view b' j = feature_view b j"
  by (auto simp: CompileCategorical_def FreeBlob_def Let_def feature_view_def
      UpdatePerfectHashAndBinarize_def
      split: sum.splits prod.splits if_splits)

lemma CompileBinarizedFloat_view:
  "CompileBinarizedFloat c b i n = Inr (b', col, bins) \<Longrightarrow> i \<noteq> j \<Longrightarrow>
   feature_view b' j = feature_view b j"
  by (auto simp: CompileBinarizedFloat_def FreeBlob_def Let_def feature_view_def
      SetOrCheckNanMode_def
      split: sum.splits prod.splits if_splits option.splits)

lemma CompileFloat_view:
  "CompileFloat c b i n = Inr (b', col, bins) \<Longrightarrow> i \<noteq> j \<Longrightarrow>
   feature_view b' j = feature_view b j"
  by (auto simp: CompileFloat_def FreeBlob_def Let_def feature_view_def
      GetOrComputeNanMode_def
      split: sum.splits prod.splits if_splits option.splits)

lemma FeatureTask_view:
  assumes "FeatureTask c b i = Inr (b', n, col, bins)" and "i \<noteq> j"
  shows "feature_view b' j = feature_view b j"
proof (cases "length (FeatureBlobs b ! i) = 0")
  case True
  with assms show ?thesis by (simp add: FeatureTask_def)
next
  case False
  show ?thesis
  proof (cases "FeatureTypes b ! i")
    case Float
    with assms False have "CompileFloat c b i (GetFeatureName c i) = Inr (b', col, bins)"
      by (auto simp: FeatureTask_def Let_def split: sum.splits)
    then show ?thesis using assms(2) by (rule CompileFloat_view)
  next
    case Categorical
    with assms False have "CompileCategorical c b i (GetFeatureName c i) = Inr (b', col, bins)"
      by (auto simp: FeatureTask_def Let_def split: sum.splits)
    then show ?thesis using assms(2) by (rule CompileCategorical_view)
  next
    case BinarizedFloat
    with assms False have "CompileBinarizedFloat c b i (GetFeatureName c i) = Inr (b', col, bins)"
      by (auto simp: FeatureTask_def Let_def split: sum.splits)
    then show ?thesis using assms(2) by (rule CompileBinarizedFloat_view)
  qed
qed

lemma FeatureTask_name:
  "FeatureTask c b i = Inr (b', n, col, bins) \<Longrightarrow> n = GetFeatureName c i"
  by (auto simp: FeatureTask_def Let_def split: if_splits sum.splits)

lemma ParallelFor_columns:
  "ParallelFor c b fids = Inr (b', names, cols) \<Longrightarrow> distinct fids \<Longrightarrow>
   cols = map (TaskColumn c b) fids \<and> names = map (GetFeatureName c) fids"
proof (induction fids arbitrary: b names cols)
  case Nil
  then show ?case by simp
next
  case (Cons i fids)
  from Cons.prems(1) obtain b1 n col bins names' cols' where
    t: "FeatureTask c b i = Inr (b1, n, col, bins)" and
    r: "ParallelFor c b1 fids = Inr (b', names', cols')" and
    nc: "names = n # names'" "cols = col # cols'"
    by (rule ParallelFor_Cons_Inr)
  from Cons.prems(2) have d: "distinct fids" and ni: "\<forall>j \<in> set fids. i \<noteq> j" by auto
  from Cons.IH [OF r d] have
    ih: "cols' = map (TaskColumn c b1) fids" "names' = map (GetFeatureName c) fids"
    by simp_all
  have "TaskColumn c b1 j = TaskColumn c b j" if "j \<in> set fids" for j
    using that ni FeatureTask_view [OF t] by (intro TaskColumn_cong) blast
  then have "map (TaskColumn c b1) fids = map (TaskColumn c b) fids" by simp
  moreover have "col = TaskColumn c b i" using t by (simp add: TaskColumn_def)
  moreover have "n = GetFeatureName c i" using t by (rule FeatureTask_name)
  ultimately show ?case using nc ih by simp
qed

subsection \<open>Categorical features in test mode\<close>

lemma FeatureTask_categorical_skip:
  assumes "IsTest b" and "FeatureTypes b ! i = Categorical"
    and "GetUniqueValues (CatFeaturesPerfectHashHelper b) i = 0"
    and "FeatureBlobs b ! i \<noteq> []"
    and "length (FeatureBlobs b ! i) = 4 * length (Order b)"
  shows "FeatureTask c b i = Inr (FreeBlob b i, GetFeatureName c i, None, None)"
proof -
  have "length (FeatureBlobs b ! i) \<noteq> 0" using assms(4) by simp
  moreover have "MakeOrderedLine_float (FeatureBlobs b ! i) (Order b) =
      Inr (map (\<lambda>k. float_at (FeatureBlobs b ! i) k) (Order b))"
    using assms(5) by (simp add: MakeOrderedLine_float_def)
  ultimately show ?thesis
    using assms(1,2,3) by (simp add: FeatureTask_def CompileCategorical_def Let_def)
qed

text \<open>
  C4, as amended. In test mode, the task of a categorical feature with a non-empty blob of
  consistent size and no known categories runs neither the code assignment nor the
  binarization: it returns no bins and no column, leaves the perfect-hash indexer as it
  was, and only releases the feature's blob.
\<close>

theorem unknown_categories_skipped_in_test_mode:
  assumes "IsTest b" and "FeatureTypes b ! i = Categorical"
    and "GetUniqueValues (CatFeaturesPerfectHashHelper b) i = 0"
    and "FeatureBlobs b ! i \<noteq> []"
    and "length (FeatureBlobs b ! i) = 4 * length (Order b)"
  shows "FeatureTask c b i = Inr (FreeBlob b i, GetFeatureName c i, None, None) \<and>
         CatFeaturesPerfectHashHelper (FreeBlob b i) = CatFeaturesPerfectHashHelper b \<and>
         TaskColumn c b i = None"
  using FeatureTask_categorical_skip [OF assms, of c]
  by (simp add: TaskColumn_def FreeBlob_def)

theorem unknown_categories_skipped_in_test_mode_witness:
  "IsTest (sample_builder\<lparr>IsTest := True, FeatureTypes := [Float, Categorical],
            Order := [0, 1, 2]\<rparr>) \<and>
   GetUniqueValues (CatFeaturesPerfectHashHelper
     (sample_builder\<lparr>IsTest := True, FeatureTypes := [Float, Categorical],
        Order := [0, 1, 2]\<rparr>)) 1 = 0 \<and>
   FeatureTask sample_collaborators
     (sample_builder\<lparr>IsTest := True, FeatureTypes := [Float, Categorical],
        Order := [0, 1, 2]\<rparr>) 1 =
   Inr (FreeBlob (sample_builder\<lparr>IsTest := True, FeatureTypes := [Float, Categorical],
          Order := [0, 1, 2]\<rparr>) 1, ''ff'', None, None)"
proof -
  let ?b = "sample_builder\<lparr>IsTest := True, FeatureTypes := [Float, Categorical],
        Order := [0, 1, 2]\<rparr>"
  have h: "IsTest ?b" "FeatureTypes ?b ! 1 = Categorical"
    "GetUniqueValues (CatFeaturesPerfectHashHelper ?b) 1 = 0"
    "FeatureBlobs ?b ! 1 \<noteq> []" "length (FeatureBlobs ?b ! 1) = 4 * length (Order ?b)"
    by (simp_all add: sample_builder_def GetUniqueValues_def)
  have n: "GetFeatureName sample_collaborators 1 = ''ff''"
    by (simp add: sample_collaborators_def)
  from unknown_categories_skipped_in_test_mode [OF h, of sample_collaborators] h(1,3) n
  show ?thesis by simp
qed

text \<open>
  C4 as stated fails: for the categorical feature 1 (raw values 1.0, 2.0, 3.0) of a
  test-mode builder with no known categories, the task computes no bins at all.
\<close>

theorem unknown_categories_not_binarized:
  "IsTest (sample_builder\<lparr>IsTest := True, FeatureTypes := [Float, Categorical],
            Order := [0, 1, 2]\<rparr>) \<and>
   FeatureTypes (sample_builder\<lparr>IsTest := True, FeatureTypes := [Float, Categorical],
            Order := [0, 1, 2]\<rparr>) ! 1 = Categorical \<and>
   GetUniqueValues (CatFeaturesPerfectHashHelper
     (sample_builder\<lparr>IsTest := True, FeatureTypes := [Float, Categorical],
        Order := [0, 1, 2]\<rparr>)) 1 = 0 \<and>
   \<not> (\<exists>b' name column data.
        FeatureTask sample_collaborators
          (sample_builder\<lparr>IsTest := True, FeatureTypes := [Float, Categorical],
             Order := [0, 1, 2]\<rparr>) 1 =
        Inr (b', name, column, Some data))"
proof -
  let ?b = "sample_builder\<lparr>IsTest := True, FeatureTypes := [Float, Categorical],
        Order := [0, 1, 2]\<rparr>"
  have h: "IsTest ?b" "FeatureTypes ?b ! 1 = Categorical"
    "GetUniqueValues (CatFeaturesPerfectHashHelper ?b) 1 = 0"
    "FeatureBlobs ?b ! 1 \<noteq> []" "length (FeatureBlobs ?b ! 1) = 4 * length (Order ?b)"
    by (simp_all add: sample_builder_def GetUniqueValues_def)
  from FeatureTask_categorical_skip [OF h, of sample_collaborators] h(1,2,3)
  show ?thesis by simp
qed

subsection \<open>Dropped features\<close>

lemma Reconcile_Features_list:
  "Features (Reconcile b k cols) = Features b @ List.map_filter id cols"
proof (induction cols arbitrary: b k)
  case Nil
  then show ?case by (simp add: List.map_filter_simps)
next
  case (Cons col cols)
  show ?case
    by (cases col) (simp_all add: Cons.IH ReconcileFeature_fields List.map_filter_simps)
qed

lemma map_filter_skip:
  "f i = None \<Longrightarrow> List.map_filter f (filter (\<lambda>j. j \<noteq> i) xs) = List.map_filter f xs"
  by (induction xs) (auto simp: List.map_filter_simps split: option.splits)

lemma map_filter_id_map: "List.map_filter id (map f xs) = List.map_filter f xs"
  by (induction xs) (auto simp: List.map_filter_simps split: option.splits)

lemma Finish_columns:
  assumes "OrderDocuments c b = Inr b1" and "Finish c b = Inr r"
  shows "Features r =
           Features b @ List.map_filter (TaskColumn c b1) [0..<length (FeatureBlobs b)]"
    and "FeatureNames r = map (GetFeatureName c) [0..<length (FeatureBlobs b)]"
proof -
  from assms obtain b2 where
    cf: "CompileFeatures c b1 = Inr b2" and v: "Validate b2 = Inr r"
    by (auto elim: Finish_Inr)
  from cf obtain b0 names cols where
    pf: "ParallelFor c b1 [0..<length (FeatureBlobs b1)] = Inr (b0, names, cols)" and
    b2: "b2 = (if \<not> IsTest (Reconcile b0 0 cols) then SetTargetBorders c (Reconcile b0 0 cols)
           else Reconcile b0 0 cols)\<lparr>FeatureNames := names\<rparr>"
    by (rule CompileFeatures_Inr)
  note od = OrderDocuments_FeaturesManager [OF assms(1)]
  from ParallelFor_columns [OF pf] have
    cols: "cols = map (TaskColumn c b1) [0..<length (FeatureBlobs b)]" and
    names: "names = map (GetFeatureName c) [0..<length (FeatureBlobs b)]"
    by (simp_all add: od)
  have "Features b2 = Features (Reconcile b0 0 cols)" "FeatureNames b2 = names"
    unfolding b2 by (simp_all add: SetTargetBorders_def)
  moreover have "Features r = Features b2" "FeatureNames r = FeatureNames b2"
    using Validate_Inr [OF v] by simp_all
  moreover have "Features b0 = Features b"
    using ParallelFor_Features [OF pf] by (simp add: od)
  ultimately show "Features r =
           Features b @ List.map_filter (TaskColumn c b1) [0..<length (FeatureBlobs b)]"
    and "FeatureNames r = map (GetFeatureName c) [0..<length (FeatureBlobs b)]"
    using cols names by (simp_all add: Reconcile_Features_list map_filter_id_map)
qed

lemma TaskColumn_GetId: "TaskColumn c b j = Some x \<Longrightarrow> GetId x = j"
proof -
  assume a: "TaskColumn c b j = Some x"
  then obtain b' n bins where "FeatureTask c b j = Inr (b', n, Some x, bins)"
    by (auto simp: TaskColumn_def split: sum.splits)
  from FeatureTask_blob [OF this] show ?thesis by simp
qed

lemma Dropped_iff:
  assumes "FeatureBlobs b ! i \<noteq> []"
  shows "Dropped c b i \<longleftrightarrow>
         (\<exists>b' bins. FeatureTask c b i = Inr (b', GetFeatureName c i, None, bins))"
proof (cases "FeatureTypes b ! i")
  case Float
  then show ?thesis
    using assms
    by (auto simp: Dropped_def FeatureTask_def CompileFloat_def GetOrComputeNanMode_def
        HasFloatFeatureBorders_def GetFloatFeatureBorders_def Let_def
        split: option.splits if_splits)
next
  case Categorical
  then show ?thesis
    using assms
    by (auto simp: Dropped_def FeatureTask_def CompileCategorical_def MakeOrderedLine_float_def
        Let_def split: prod.splits if_splits)
next
  case BinarizedFloat
  then show ?thesis
    using assms
    by (auto simp: Dropped_def FeatureTask_def CompileBinarizedFloat_def MakeOrderedLine_ui8_def
        SetOrCheckNanMode_def Let_def split: option.splits if_splits)
qed

text \<open>
  C7, as amended. Let the task of feature \<open>i\<close> meet the source's conditions for a dropped
  feature in the state that the document-ordering phase leaves: a categorical feature of
  which the indexer knows fewer than two distinct values (or which is skipped in test
  mode), a pre-binarized feature without declared borders, or a float feature whose
  borders (recorded in the store, else held by the builder, else freshly built outside
  test mode) are empty. Then the task returns without an exception and without a column;
  after a successful \<^verbatim>\<open>Finish\<close> no added column belongs to the feature, its name is
  retained at its index, and the added columns are exactly those that the tasks of the
  other features compute, each from its own data, in feature order.
\<close>

theorem dropped_feature_is_omitted:
  assumes "OrderDocuments c b = Inr b1" and "Finish c b = Inr r"
    and "i < length (FeatureBlobs b)" and "FeatureBlobs b ! i \<noteq> []" and "Dropped c b1 i"
  shows "(\<exists>b' bins. FeatureTask c b1 i = Inr (b', GetFeatureName c i, None, bins)) \<and>
         (\<forall>x \<in> set (Features r). x \<in> set (Features b) \<or> GetId x \<noteq> i) \<and>
         FeatureNames r ! i = GetFeatureName c i \<and>
         Features r =
           Features b @
           List.map_filter (TaskColumn c b1)
             (filter (\<lambda>j. j \<noteq> i) [0..<length (FeatureBlobs b)])"
proof -
  note od = OrderDocuments_FeaturesManager [OF assms(1)]
  have blob: "FeatureBlobs b1 ! i \<noteq> []" using assms(4) by (simp add: od)
  from Dropped_iff [OF blob, of c] assms(5) obtain b' bins where
    t: "FeatureTask c b1 i = Inr (b', GetFeatureName c i, None, bins)"
    by blast
  then have none: "TaskColumn c b1 i = None" by (simp add: TaskColumn_def)
  note fc = Finish_columns [OF assms(1,2)]
  have f: "Features r =
           Features b @
           List.map_filter (TaskColumn c b1)
             (filter (\<lambda>j. j \<noteq> i) [0..<length (FeatureBlobs b)])"
    unfolding fc(1) using none by (simp add: map_filter_skip)
  have "x \<in> set (Features b) \<or> GetId x \<noteq> i" if "x \<in> set (Features r)" for x
  proof -
    from that f have "x \<in> set (Features b) \<or>
        (\<exists>j. j \<noteq> i \<and> TaskColumn c b1 j = Some x)"
      by (auto simp: List.map_filter_def)
    then show ?thesis by (auto dest: TaskColumn_GetId)
  qed
  moreover have "FeatureNames r ! i = GetFeatureName c i"
    unfolding fc(2) using assms(3) by simp
  ultimately show ?thesis using t f by blast
qed

theorem dropped_feature_is_omitted_witness:
  "Dropped sample_collaborators (projr (OrderDocuments sample_collaborators sample_builder)) 0 \<and>
   map (float_at (FeatureBlobs sample_builder ! 0)) [0, 1, 2] =
     [0x3F800000, 0x3F800000, 0x3F800000] \<and>
   map GetId (Features (projr (Finish sample_collaborators sample_builder))) = [1] \<and>
   FeatureNames (projr (Finish sample_collaborators sample_builder)) ! 0 = ''f'' \<and>
   Features (projr (Finish sample_collaborators sample_builder)) =
     List.map_filter
       (TaskColumn sample_collaborators (projr (OrderDocuments sample_collaborators sample_builder)))
       [1]"
proof -
  let ?c = sample_collaborators
  let ?b = sample_builder
  let ?b1 = "projr (OrderDocuments ?c ?b)"
  let ?r = "projr (Finish ?c ?b)"
  have "\<not> isl (OrderDocuments ?c ?b)" by code_simp
  then have od: "OrderDocuments ?c ?b = Inr ?b1" by simp
  have "\<not> isl (Finish ?c ?b)" by code_simp
  then have f: "Finish ?c ?b = Inr ?r" by simp
  have i: "0 < length (FeatureBlobs ?b)" and blob: "FeatureBlobs ?b ! 0 \<noteq> []"
    and e: "Features ?b = []" and len: "[0..<length (FeatureBlobs ?b)] = [0, 1]"
    by (simp_all add: sample_builder_def upt_conv_Cons)
  have d: "Dropped ?c ?b1 0" by code_simp
  have v: "map (float_at (FeatureBlobs ?b ! 0)) [0, 1, 2] = [0x3F800000, 0x3F800000, 0x3F800000]"
    by code_simp
  have ids: "map GetId (Features ?r) = [1]" by code_simp
  have n: "GetFeatureName ?c 0 = ''f''" by (simp add: sample_collaborators_def)
  from dropped_feature_is_omitted [OF od f i blob d] have
    "FeatureNames ?r ! 0 = GetFeatureName ?c 0" and
    "Features ?r = Features ?b @ List.map_filter (TaskColumn ?c ?b1)
       (filter (\<lambda>j. j \<noteq> 0) [0..<length (FeatureBlobs ?b)])"
    by blast+
  then have "FeatureNames ?r ! 0 = ''f''"
    and "Features ?r = List.map_filter (TaskColumn ?c ?b1) [1]"
    unfolding len by (simp_all add: n e)
  with d v ids show ?thesis by (intro conjI)
qed

text \<open>
  C7 as stated fails for a float feature whose borders are already recorded in the shared
  store: in a test-mode builder, feature 0 has the single raw value 1.0 in all three rows,
  the store holds the border 1.5 for it, and \<^verbatim>\<open>Finish\<close> compiles a column for it.
\<close>

theorem single_valued_feature_compiled:
  "remdups (map (float_at (FeatureBlobs (sample_builder\<lparr>IsTest := True, FeaturesManager :=
       \<lparr>FloatBorders = [0 \<mapsto> [0x3FC00000], 1 \<mapsto> [0x3FC00000]],
          FloatNanModes = [0 \<mapsto> Forbidden, 1 \<mapsto> Forbidden], TargetBorders = []\<rparr>\<rparr>) ! 0))
       [0, 1, 2]) = [0x3F800000] \<and>
   \<not> isl (Finish sample_collaborators (sample_builder\<lparr>IsTest := True, FeaturesManager :=
       \<lparr>FloatBorders = [0 \<mapsto> [0x3FC00000], 1 \<mapsto> [0x3FC00000]],
          FloatNanModes = [0 \<mapsto> Forbidden, 1 \<mapsto> Forbidden], TargetBorders = []\<rparr>\<rparr>)) \<and>
   map GetId (Features (projr (Finish sample_collaborators
     (sample_builder\<lparr>IsTest := True, FeaturesManager :=
       \<lparr>FloatBorders = [0 \<mapsto> [0x3FC00000], 1 \<mapsto> [0x3FC00000]],
          FloatNanModes = [0 \<mapsto> Forbidden, 1 \<mapsto> Forbidden], TargetBorders = []\<rparr>\<rparr>)))) =
     [0, 1]"
  by code_simp

subsection \<open>What StartNextBlock establishes\<close>

lemma resize_grow: "length xs \<le> n \<Longrightarrow> resize n v xs = xs @ replicate (n - length xs) v"
  by (simp add: resize_def)

lemma StartNextBlock_QueryIds:
  assumes "length (QueryIds b) = length (Targets b)"
  shows "QueryIds (StartNextBlock b blockSize) =
         QueryIds b @ map of_nat [length (Targets b)..<length (Targets b) + blockSize]"
  using assms by (simp add: StartNextBlock_def Let_def resize_grow)

lemma StartNextBlock_default_group_ids:
  assumes "length (QueryIds b) = length (Targets b)"
    and "\<not> HasQueryIds (QueryIds b)"
  shows "\<not> HasQueryIds (QueryIds (StartNextBlock b blockSize))"
proof -
  have "(QueryIds b @ map of_nat [length (Targets b)..<length (Targets b) + blockSize]) ! k =
        of_nat k" if "k < length (Targets b) + blockSize" for k
  proof (cases "k < length (QueryIds b)")
    case True
    with assms(2) show ?thesis by (simp add: HasQueryIds_iff nth_append)
  next
    case False
    with that assms(1) show ?thesis by (simp add: nth_append)
  qed
  then show ?thesis
    using assms(1) by (simp add: StartNextBlock_QueryIds HasQueryIds_iff)
qed

lemma StartNextBlock_rows_consistent:
  assumes "length (Weights b) = length (Targets b)"
    and "length (QueryIds b) = length (Targets b)"
    and "length (Timestamp b) = length (Targets b)"
    and "TargetHelper b = None"
  shows "rows_consistent (StartNextBlock b blockSize)"
  using assms
  by (simp add: rows_consistent_def MakeTargetAndWeights_def StartNextBlock_def Let_def
      resize_def)

end
